theory Spec2Isabelle
  imports Main "HOL-Library.Word" "HOL-Library.AList" "HOL-Library.Char_ord" "HOL-Library.List_Lexorder"
begin

unbundle bit_operations_syntax

section \<open>Go standard-library string helpers used by the sources\<close>

text \<open>
  The functions of this section belong to the Go standard library (package \<open>strings\<close>),
  not to the repository. Each one is written out the way the library computes it, on
  byte strings (\<open>string = char list\<close>).
\<close>

text \<open>\<open>strings.HasSuffix\<close>:
  \<^verbatim>\<open>len(s) >= len(suffix) && s[len(s)-len(suffix):] == suffix\<close>.\<close>

definition HasSuffix :: "string \<Rightarrow> string \<Rightarrow> bool" where
  "HasSuffix s suffix \<longleftrightarrow>
     length suffix \<le> length s \<and> drop (length s - length suffix) s = suffix"

text \<open>\<open>strings.TrimSuffix\<close>: \<^verbatim>\<open>if HasSuffix(s, suffix) { return s[:len(s)-len(suffix)] }; return s\<close>.\<close>

definition TrimSuffix :: "string \<Rightarrow> string \<Rightarrow> string" where
  "TrimSuffix s suffix =
     (if HasSuffix s suffix then take (length s - length suffix) s else s)"

text \<open>\<open>strings.TrimRight(s, cutset)\<close> drops every trailing byte that occurs in the cutset.\<close>

definition TrimRight :: "string \<Rightarrow> string \<Rightarrow> string" where
  "TrimRight s cutset = rev (dropWhile (\<lambda>c. c \<in> set cutset) (rev s))"

text \<open>
  \<open>strings.Split(s, sep)\<close> for a separator of one byte, which is what every call in the
  sources passes (\<^verbatim>\<open>"."\<close>): the loop cuts \<open>s\<close> at the first separator, keeps the
  piece before it and goes on behind it; the rest without a separator is the last piece.
  The empty string gives one empty piece.
\<close>

function Split :: "string \<Rightarrow> char \<Rightarrow> string list" where
  "Split s sep =
     (case dropWhile (\<lambda>c. c \<noteq> sep) s of
        [] \<Rightarrow> [s]
      | _ # rest \<Rightarrow> takeWhile (\<lambda>c. c \<noteq> sep) s # Split rest sep)"
  by pat_completeness auto
termination
proof (relation "measure (\<lambda>(s, sep). length s)")
  show "wf (measure (\<lambda>(s, sep). length s))" by simp
next
  fix s :: string and sep x21 x22
  assume "dropWhile (\<lambda>c. c \<noteq> sep) s = x21 # x22"
  then have "length x22 < length (dropWhile (\<lambda>c. c \<noteq> sep) s)" by simp
  also have "\<dots> \<le> length s" by (rule length_dropWhile_le)
  finally show "((x22, sep), (s, sep)) \<in> measure (\<lambda>(s, sep). length s)" by simp
qed

declare Split.simps [simp del]

text \<open>\<open>strings.Join(elems, sep)\<close>.\<close>

fun Join :: "string list \<Rightarrow> string \<Rightarrow> string" where
  "Join [] sep = []"
| "Join [x] sep = x"
| "Join (x # y # ys) sep = x @ sep @ Join (y # ys) sep"

text \<open>
  \<open>strings.Replace(s, old, new, -1)\<close> for \<open>old\<close> and \<open>new\<close> of one byte each (the
  only call passes \<^verbatim>\<open>"-"\<close> and \<^verbatim>\<open>"."\<close>): every occurrence is replaced.
\<close>

definition Replace :: "string \<Rightarrow> char \<Rightarrow> char \<Rightarrow> string" where
  "Replace s old new = map (\<lambda>c. if c = old then new else c) s"

text \<open>\<open>strings.ToLower\<close> on ASCII: the letters \<open>A\<close> to \<open>Z\<close> are mapped to \<open>a\<close> to \<open>z\<close>.
  (On bytes outside ASCII the library maps Unicode letters; protocol names are ASCII.)\<close>

definition lower_char :: "char \<Rightarrow> char" where
  "lower_char c =
     (let n = (of_char c :: nat) in if 65 \<le> n \<and> n \<le> 90 then char_of (n + 32) else c)"

definition ToLower :: "string \<Rightarrow> string" where
  "ToLower s = map lower_char s"

section \<open>Go standard-library number formatting and parsing\<close>

definition digit_char :: "nat \<Rightarrow> char" where
  "digit_char n = ''0123456789abcdef'' ! n"

text \<open>Decimal rendering of an unsigned number (\<open>strconv.Itoa\<close> on a non-negative value,
  \<open>%d\<close> and \<open>%v\<close> of \<open>fmt\<close>).\<close>

function uitoa :: "nat \<Rightarrow> string" where
  "uitoa n = (if n < 10 then [digit_char n] else uitoa (n div 10) @ [digit_char (n mod 10)])"
  by pat_completeness auto
termination
  by (relation "measure id") auto

declare uitoa.simps [simp del]

definition itoa :: "int \<Rightarrow> string" where
  "itoa i = (if i < 0 then CHR ''-'' # uitoa (nat (- i)) else uitoa (nat i))"

text \<open>Lower-case hexadecimal rendering without leading zeros (\<open>%x\<close> of an unsigned number).\<close>

function hex_of_nat :: "nat \<Rightarrow> string" where
  "hex_of_nat n =
     (if n < 16 then [digit_char n] else hex_of_nat (n div 16) @ [digit_char (n mod 16)])"
  by pat_completeness auto
termination
  by (relation "measure id") auto

declare hex_of_nat.simps [simp del]

text \<open>\<open>%x\<close> of a string: two lower-case hexadecimal digits for each byte.\<close>

definition hex_of_string :: "string \<Rightarrow> string" where
  "hex_of_string s =
     concat (map (\<lambda>c. [digit_char (of_char c div 16), digit_char (of_char c mod 16)]) s)"

definition is_digit :: "char \<Rightarrow> bool" where
  "is_digit c \<longleftrightarrow> 48 \<le> (of_char c :: nat) \<and> (of_char c :: nat) \<le> 57"

definition digit_val :: "char \<Rightarrow> nat" where
  "digit_val c = of_char c - 48"

text \<open>The value of a string of decimal digits, most significant digit first.\<close>

definition dec_val :: "string \<Rightarrow> nat" where
  "dec_val s = foldl (\<lambda>n c. n * 10 + digit_val c) 0 s"

text \<open>
  \<open>strconv.Atoi\<close>: an optional sign, then at least one decimal digit and nothing else;
  a value outside the 64-bit \<open>int\<close> is an error. \<open>None\<close> is the error.
\<close>

definition Atoi :: "string \<Rightarrow> int option" where
  "Atoi s =
     (let neg = (s \<noteq> [] \<and> hd s = CHR ''-'');
          body = (if s \<noteq> [] \<and> (hd s = CHR ''-'' \<or> hd s = CHR ''+'') then tl s else s)
      in if body = [] \<or> \<not> list_all is_digit body then None
         else (let v = (if neg then - int (dec_val body) else int (dec_val body))
               in if v < - (2 ^ 63) \<or> 2 ^ 63 - 1 < v then None else Some v))"

section \<open>Go standard library, package \<open>net\<close>\<close>

text \<open>
  A \<open>net.IP\<close> is the 16-byte form the parser returns (an IPv4 address is stored
  IPv4-in-IPv6, behind ten zero bytes and two bytes \<open>0xff\<close>). \<open>None\<close> is the \<open>nil\<close> IP.
\<close>

type_synonym net_IP = "nat list"

text \<open>\<open>dtoi\<close>: the decimal number at the start of the string, the number of bytes it
  takes, and whether there was one; the loop gives up once the number reaches
  \<open>big = 0xFFFFFF\<close>.\<close>

definition big :: nat where
  "big = 16777215"

fun dtoi_loop :: "nat \<Rightarrow> nat \<Rightarrow> string \<Rightarrow> nat \<times> nat \<times> bool" where
  "dtoi_loop n i [] = (if i = 0 then (0, 0, False) else (n, i, True))"
| "dtoi_loop n i (c # cs) =
     (if is_digit c
      then (let n' = n * 10 + digit_val c
            in if big \<le> n' then (big, i, False) else dtoi_loop n' (Suc i) cs)
      else (if i = 0 then (0, 0, False) else (n, i, True)))"

definition dtoi :: "string \<Rightarrow> nat \<times> nat \<times> bool" where
  "dtoi s = dtoi_loop 0 0 s"

text \<open>\<open>parseIPv4\<close>: four decimal fields of at most 255 with no leading zero, separated
  by dots, and nothing behind them. The argument \<open>i\<close> counts the fields read.\<close>

fun parseIPv4_loop :: "nat \<Rightarrow> nat \<Rightarrow> string \<Rightarrow> nat list option" where
  "parseIPv4_loop 0 i s = (if s = [] then Some [] else None)"
| "parseIPv4_loop (Suc left) i s =
     (if s = [] then None
      else if 0 < i \<and> hd s \<noteq> CHR ''.'' then None
      else (let s1 = (if 0 < i then tl s else s)
            in case dtoi s1 of (n, c, ok) \<Rightarrow>
                 if \<not> ok \<or> 255 < n then None
                 else if 1 < c \<and> hd s1 = CHR ''0'' then None
                 else (case parseIPv4_loop left (Suc i) (drop c s1) of
                         None \<Rightarrow> None
                       | Some bs \<Rightarrow> Some (n # bs))))"

definition IPv4 :: "nat \<Rightarrow> nat \<Rightarrow> nat \<Rightarrow> nat \<Rightarrow> net_IP" where
  "IPv4 a b c d = [0, 0, 0, 0, 0, 0, 0, 0, 0, 0, 255, 255, a, b, c, d]"

definition parseIPv4 :: "string \<Rightarrow> net_IP option" where
  "parseIPv4 s =
     (case parseIPv4_loop 4 0 s of
        Some [a, b, c, d] \<Rightarrow> Some (IPv4 a b c d)
      | _ \<Rightarrow> None)"

text \<open>\<open>xtoi\<close>: the same for a hexadecimal number (digits in either case).\<close>

definition hex_val :: "char \<Rightarrow> nat option" where
  "hex_val c =
     (let n = (of_char c :: nat)
      in if 48 \<le> n \<and> n \<le> 57 then Some (n - 48)
         else if 97 \<le> n \<and> n \<le> 102 then Some (n - 97 + 10)
         else if 65 \<le> n \<and> n \<le> 70 then Some (n - 65 + 10)
         else None)"

fun xtoi_loop :: "nat \<Rightarrow> nat \<Rightarrow> string \<Rightarrow> nat \<times> nat \<times> bool" where
  "xtoi_loop n i [] = (if i = 0 then (0, i, False) else (n, i, True))"
| "xtoi_loop n i (c # cs) =
     (case hex_val c of
        Some d \<Rightarrow>
          (let n' = n * 16 + d
           in if big \<le> n' then (0, i, False) else xtoi_loop n' (Suc i) cs)
      | None \<Rightarrow> (if i = 0 then (0, i, False) else (n, i, True)))"

definition xtoi :: "string \<Rightarrow> nat \<times> nat \<times> bool" where
  "xtoi s = xtoi_loop 0 0 s"

text \<open>
  \<open>parseIPv6\<close>. The loop reads 16-bit groups separated by colons; \<open>bs\<close> holds the bytes
  written so far (the index \<open>i\<close> of the library is \<open>length bs\<close>), \<open>ellipsis\<close> is the
  position of \<open>::\<close> or \<open>-1\<close>. A group followed by a dot starts a trailing IPv4 address.
  One round of the loop either fails, leaves the loop, or goes on with more bytes; the
  loop returns the bytes, the ellipsis and the unread rest of the string.
\<close>

datatype parse_step =
    Failed
  | Finished "nat list" int string
  | Next "nat list" int string

definition parseIPv6_round :: "nat list \<Rightarrow> int \<Rightarrow> string \<Rightarrow> parse_step" where
  "parseIPv6_round bs ellipsis s =
     (case xtoi s of (n, c, ok) \<Rightarrow>
        if \<not> ok \<or> 65535 < n then Failed
        else if c < length s \<and> s ! c = CHR ''.'' then
          (if ellipsis < 0 \<and> length bs \<noteq> 12 then Failed
           else if 16 < length bs + 4 then Failed
           else (case parseIPv4 s of
                   None \<Rightarrow> Failed
                 | Some ip4 \<Rightarrow> Finished (bs @ drop 12 ip4) ellipsis []))
        else if drop c s = [] then Finished (bs @ [n div 256, n mod 256]) ellipsis []
        else if hd (drop c s) \<noteq> CHR '':'' \<or> length (drop c s) = 1 then Failed
        else if hd (tl (drop c s)) = CHR '':'' then
          (if 0 \<le> ellipsis then Failed
           else if tl (tl (drop c s)) = []
             then Finished (bs @ [n div 256, n mod 256]) (int (length bs) + 2) []
             else Next (bs @ [n div 256, n mod 256]) (int (length bs) + 2)
                    (tl (tl (drop c s))))
        else Next (bs @ [n div 256, n mod 256]) ellipsis (tl (drop c s)))"

function parseIPv6_loop :: "nat list \<Rightarrow> int \<Rightarrow> string \<Rightarrow> (nat list \<times> int \<times> string) option" where
  "parseIPv6_loop bs ellipsis s =
     (if \<not> length bs < 16 then Some (bs, ellipsis, s)
      else (case parseIPv6_round bs ellipsis s of
              Failed \<Rightarrow> None
            | Finished bs' ellipsis' s' \<Rightarrow> Some (bs', ellipsis', s')
            | Next bs' ellipsis' s' \<Rightarrow> parseIPv6_loop bs' ellipsis' s'))"
  by pat_completeness auto
termination
proof (relation "measure (\<lambda>(bs, ellipsis, s). 16 - length bs)")
  show "wf (measure (\<lambda>(bs, ellipsis, s). 16 - length bs))" by simp
next
  fix bs :: "nat list" and ellipsis :: int and s :: string
    and bs' :: "nat list" and ellipsis' :: int and s' :: string
  assume lt: "\<not> \<not> length bs < 16" and r: "parseIPv6_round bs ellipsis s = Next bs' ellipsis' s'"
  from r have "length bs' = length bs + 2"
    by (auto simp: parseIPv6_round_def split: prod.splits if_splits option.splits)
  with lt show "((bs', ellipsis', s'), (bs, ellipsis, s))
                \<in> measure (\<lambda>(bs, ellipsis, s). 16 - length bs)"
    by simp
qed

declare parseIPv6_loop.simps [simp del]

text \<open>After the loop the whole string must be used; bytes that are missing are the zeros
  the ellipsis stands for, and an ellipsis must stand for at least one group.\<close>

definition parseIPv6 :: "string \<Rightarrow> net_IP option" where
  "parseIPv6 s =
     (let lead = (2 \<le> length s \<and> s ! 0 = CHR '':'' \<and> s ! 1 = CHR '':'');
          s0 = (if lead then drop 2 s else s);
          ellipsis0 = (if lead then 0 else - 1)
      in if lead \<and> s0 = [] then Some (replicate 16 0)
         else (case parseIPv6_loop [] ellipsis0 s0 of
                 None \<Rightarrow> None
               | Some (bs, ellipsis, rest) \<Rightarrow>
                   if rest \<noteq> [] then None
                   else if length bs < 16 then
                     (if ellipsis < 0 then None
                      else Some (take (nat ellipsis) bs @ replicate (16 - length bs) 0
                                 @ drop (nat ellipsis) bs))
                   else if 0 \<le> ellipsis then None
                   else Some bs))"

text \<open>\<open>net.ParseIP\<close>: the first dot or colon of the string decides between the two
  parsers; a string with neither is no IP address.\<close>

definition ParseIP :: "string \<Rightarrow> net_IP option" where
  "ParseIP s =
     (case dropWhile (\<lambda>c. c \<noteq> CHR ''.'' \<and> c \<noteq> CHR '':'') s of
        [] \<Rightarrow> None
      | c # _ \<Rightarrow> if c = CHR ''.'' then parseIPv4 s else parseIPv6 s)"

text \<open>\<open>IP.To4\<close> on the 16-byte form.\<close>

definition To4 :: "net_IP \<Rightarrow> nat list option" where
  "To4 ip =
     (if length ip = 16 \<and> take 10 ip = replicate 10 0 \<and> ip ! 10 = 255 \<and> ip ! 11 = 255
      then Some (drop 12 ip) else None)"

text \<open>
  \<open>IP.String\<close>. An IPv4 address is printed in dotted decimal. Otherwise the first longest
  run of zero groups is found (\<open>e0\<close>, \<open>e1\<close> are byte positions, \<open>-1\<close> for none; a run of
  one group is not shortened) and the groups are printed in hexadecimal with \<open>::\<close> in
  place of the run.
\<close>

function zero_run_end :: "net_IP \<Rightarrow> nat \<Rightarrow> nat" where
  "zero_run_end p j =
     (if j < 16 \<and> p ! j = 0 \<and> p ! (j + 1) = 0 then zero_run_end p (j + 2) else j)"
  by pat_completeness auto
termination
  by (relation "measure (\<lambda>(p, j). 16 - j)") auto

declare zero_run_end.simps [simp del]

function longest_zero_run :: "net_IP \<Rightarrow> nat \<Rightarrow> int \<times> int \<Rightarrow> int \<times> int" where
  "longest_zero_run p i (e0, e1) =
     (if \<not> i < 16 then (e0, e1)
      else if i < zero_run_end p i \<and> e1 - e0 < int (zero_run_end p i) - int i
        then longest_zero_run p (zero_run_end p i + 2) (int i, int (zero_run_end p i))
        else longest_zero_run p (i + 2) (e0, e1))"
  by pat_completeness auto
termination
  by (relation "measure (\<lambda>(p, i, e). 16 - i)") auto

declare longest_zero_run.simps [simp del]

function print_groups :: "net_IP \<Rightarrow> int \<Rightarrow> int \<Rightarrow> nat \<Rightarrow> string" where
  "print_groups p e0 e1 i =
     (if \<not> i < 16 then []
      else if int i = e0 then
        (if \<not> e1 < 16 \<or> e1 \<le> int i then ''::''
         else ''::'' @ hex_of_nat (p ! nat e1 * 256 + p ! (nat e1 + 1))
              @ print_groups p e0 e1 (nat e1 + 2))
      else (if 0 < i then '':'' else [])
           @ hex_of_nat (p ! i * 256 + p ! (i + 1)) @ print_groups p e0 e1 (i + 2))"
  by pat_completeness auto
termination
  by (relation "measure (\<lambda>(p, e0, e1, i). 16 - i)") auto

declare print_groups.simps [simp del]

definition IP_String :: "net_IP \<Rightarrow> string" where
  "IP_String ip =
     (case To4 ip of
        Some p4 \<Rightarrow> uitoa (p4 ! 0) @ ''.'' @ uitoa (p4 ! 1) @ ''.'' @ uitoa (p4 ! 2) @ ''.''
                   @ uitoa (p4 ! 3)
      | None \<Rightarrow>
          (let (e0, e1) = longest_zero_run ip 0 (- 1, - 1);
               (e0, e1) = (if e1 - e0 \<le> 2 then (- 1, - 1) else (e0, e1))
           in print_groups ip e0 e1 0))"

text \<open>\<open>bytealg.IndexByteString\<close> and the library's \<open>last\<close>: the first and the last
  position of a byte, \<open>-1\<close> when it does not occur.\<close>

definition IndexByte :: "string \<Rightarrow> char \<Rightarrow> int" where
  "IndexByte s c = (if c \<in> set s then int (length (takeWhile (\<lambda>x. x \<noteq> c) s)) else - 1)"

definition LastIndexByte :: "string \<Rightarrow> char \<Rightarrow> int" where
  "LastIndexByte s c =
     (if c \<in> set s then int (length s) - 1 - int (length (takeWhile (\<lambda>x. x \<noteq> c) (rev s)))
      else - 1)"

text \<open>\<open>net.SplitHostPort\<close>: the port is what follows the last colon; a host that holds a
  colon itself must be enclosed in brackets. \<open>Inl\<close> carries the error text.\<close>

definition SplitHostPort_tail ::
  "string \<Rightarrow> nat \<Rightarrow> nat \<Rightarrow> string \<Rightarrow> nat \<Rightarrow> string + (string \<times> string)" where
  "SplitHostPort_tail hostport j k host i =
     (if 0 \<le> IndexByte (drop j hostport) CHR ''[''
        then Inl ''unexpected '[' in address''
      else if 0 \<le> IndexByte (drop k hostport) CHR '']''
        then Inl ''unexpected ']' in address''
      else Inr (host, drop (i + 1) hostport))"

definition SplitHostPort :: "string \<Rightarrow> string + (string \<times> string)" where
  "SplitHostPort hostport =
     (let i = LastIndexByte hostport CHR '':''
      in if i < 0 then Inl ''missing port in address''
         else if hostport ! 0 = CHR ''['' then
           (let closing = IndexByte hostport CHR '']''
            in if closing < 0 then Inl ''missing ']' in address''
               else if closing + 1 = int (length hostport) then Inl ''missing port in address''
               else if closing + 1 = i
                 then SplitHostPort_tail hostport 1 (nat closing + 1)
                        (drop 1 (take (nat closing) hostport)) (nat i)
               else if hostport ! (nat closing + 1) = CHR '':''
                 then Inl ''too many colons in address''
               else Inl ''missing port in address'')
         else (let host = take (nat i) hostport
               in if 0 \<le> IndexByte host CHR '':'' then Inl ''too many colons in address''
                  else SplitHostPort_tail hostport 0 0 host (nat i)))"

text \<open>\<open>net.JoinHostPort\<close>: a host with a colon is put in brackets.\<close>

definition JoinHostPort :: "string \<Rightarrow> string \<Rightarrow> string" where
  "JoinHostPort host port =
     (if 0 \<le> IndexByte host CHR '':'' then ''['' @ host @ '']:'' @ port
      else host @ '':'' @ port)"

section \<open>k8s.io/apimachinery/pkg/util/validation\<close>

text \<open>
  The label checks of the Kubernetes validation library (not part of the repository).
  Each returns the list of violations: the length bound and the format, which is the
  regular expression \<^verbatim>\<open>[a-z0-9]([-a-z0-9]*[a-z0-9])?\<close> for an RFC 1123 label,
  \<^verbatim>\<open>[a-z]([-a-z0-9]*[a-z0-9])?\<close> for an RFC 1035 label, and RFC 1123 labels
  separated by dots for a subdomain.
\<close>

datatype validation_error = MaxLenError | RegexError

definition is_lower :: "char \<Rightarrow> bool" where
  "is_lower c \<longleftrightarrow> 97 \<le> (of_char c :: nat) \<and> (of_char c :: nat) \<le> 122"

definition is_lower_alnum :: "char \<Rightarrow> bool" where
  "is_lower_alnum c \<longleftrightarrow> is_lower c \<or> is_digit c"

definition dns1123LabelFmt :: "string \<Rightarrow> bool" where
  "dns1123LabelFmt s \<longleftrightarrow>
     s \<noteq> [] \<and> is_lower_alnum (hd s) \<and> is_lower_alnum (last s)
     \<and> list_all (\<lambda>c. is_lower_alnum c \<or> c = CHR ''-'') s"

definition dns1035LabelFmt :: "string \<Rightarrow> bool" where
  "dns1035LabelFmt s \<longleftrightarrow>
     s \<noteq> [] \<and> is_lower (hd s) \<and> is_lower_alnum (last s)
     \<and> list_all (\<lambda>c. is_lower_alnum c \<or> c = CHR ''-'') s"

definition IsDNS1123Label :: "string \<Rightarrow> validation_error list" where
  "IsDNS1123Label v =
     (if 63 < length v then [MaxLenError] else [])
     @ (if \<not> dns1123LabelFmt v then [RegexError] else [])"

definition IsDNS1035Label :: "string \<Rightarrow> validation_error list" where
  "IsDNS1035Label v =
     (if 63 < length v then [MaxLenError] else [])
     @ (if \<not> dns1035LabelFmt v then [RegexError] else [])"

definition IsDNS1123Subdomain :: "string \<Rightarrow> validation_error list" where
  "IsDNS1123Subdomain v =
     (if 253 < length v then [MaxLenError] else [])
     @ (if \<not> list_all dns1123LabelFmt (Split v CHR ''.'') then [RegexError] else [])"

section \<open>Data model\<close>

text \<open>
  The record payload (\<open>skymsg.Service\<close> of SkyDNS). The fields are the ones the
  specification lists; the remaining fields of the library's struct are never set by the
  repository and keep their zero values.
\<close>

record skymsg_Service =
  Host :: string
  Port :: int
  Priority :: int
  Weight :: int
  Ttl :: nat

text \<open>The Kubernetes API objects, with the fields the sources read.\<close>

record ServicePort =
  sp_Name :: string
  sp_Protocol :: string
  sp_Port :: int

record Service =
  Name :: string
  Namespace :: string
  Type :: string
  ClusterIP :: string
  ClusterIPs :: "string list"
  Ports :: "ServicePort list"
  ExternalName :: string

record EndpointAddress =
  IP :: string
  Hostname :: string

record EndpointPort =
  ep_Name :: string
  ep_Protocol :: string
  ep_Port :: int

record EndpointSubset =
  Addresses :: "EndpointAddress list"
  ss_Ports :: "EndpointPort list"

record Endpoints =
  e_Name :: string
  e_Namespace :: string
  Subsets :: "EndpointSubset list"

record Node =
  Labels :: "string \<rightharpoonup> string"

definition ServiceTypeExternalName :: string where
  "ServiceTypeExternalName = ''ExternalName''"

definition ClusterIPNone :: string where
  "ClusterIPNone = ''None''"

definition LabelZoneFailureDomain :: string where
  "LabelZoneFailureDomain = ''failure-domain.beta.kubernetes.io/zone''"

definition LabelZoneRegion :: string where
  "LabelZoneRegion = ''failure-domain.beta.kubernetes.io/region''"

text \<open>What an \<open>interface{}\<close> handed to a handler or kept in a store may hold.\<close>

datatype obj = ServiceObj Service | EndpointsObj Endpoints | NodeObj Node | OtherObj

text \<open>The dynamic configuration (\<open>config.Config\<close>) and the SkyDNS server configuration
  (\<open>server.Config\<close>), with the fields the sources read and write.\<close>

record Config =
  Federations :: "string \<rightharpoonup> string"
  UpstreamNameservers :: "string list"

record skydns_Config =
  Nameservers :: "string list"

text \<open>Every failure of the modelled functions is a value: the errors they return and the
  two run-time panics, the nil dereference of a configuration that was never installed
  and an index out of range.\<close>

datatype error =
    ErrorCodeKeyNotFound
  | InvalidIPAddress string
  | SplitHostPortError string
  | BadIPAddress string
  | BadPortNumber string
  | ExpectedNodeObject
  | FailedToRetrieveClusterNodes
  | CouldNotFindAnyNodes
  | UnknownClusterZone
  | UnknownClusterRegion
  | FailedToObtainZoneAndRegion error
  | NotAValidDomainName string string
  | NonServiceObjectInStore
  | NonEndpointObjectInStore
  | HeadlessServiceNotExpected
  | NoReverseLookup string
  | MustBeExactlyOneServiceRecord
  | NilConfigDereference
  | IndexOutOfRange

section \<open>pkg/dns/treecache\<close>

text \<open>
  Modelled from the spec: the package \<open>treecache\<close> is imported by \<open>dns.go\<close> but its
  source is not among the files at hand. Section 3 and 4.1 of the specification give the
  node (a mapping from child label to child node and a mapping from leaf key to payload)
  and the operations below; the fully qualified name given to \<open>SetEntry\<close> is kept with
  the payload. Both mappings are association lists with one pair for each key.
\<close>

datatype treeCache =
  TreeCache (ChildNodes: "(string \<times> treeCache) list")
            (Entries: "(string \<times> (skymsg_Service \<times> string)) list")

definition NewTreeCache :: treeCache where
  "NewTreeCache = TreeCache [] []"

text \<open>The node at the end of a path, if every label on the way names a child.\<close>

fun getSubCache :: "string list \<Rightarrow> treeCache \<Rightarrow> treeCache option" where
  "getSubCache [] c = Some c"
| "getSubCache (p # ps) c =
     (case map_of (ChildNodes c) p of None \<Rightarrow> None | Some n \<Rightarrow> getSubCache ps n)"

text \<open>Apply a change to the node at the end of a path, creating the missing nodes.\<close>

fun ensureChildNode :: "string list \<Rightarrow> (treeCache \<Rightarrow> treeCache) \<Rightarrow> treeCache \<Rightarrow> treeCache" where
  "ensureChildNode [] f c = f c"
| "ensureChildNode (p # ps) f c =
     TreeCache
       (AList.update p
          (ensureChildNode ps f
             (case map_of (ChildNodes c) p of None \<Rightarrow> NewTreeCache | Some n \<Rightarrow> n))
          (ChildNodes c))
       (Entries c)"

text \<open>\<open>SetEntry(leafKey, payload, fqdn, pathLabels...)\<close>: insert or replace a leaf payload
  in the node reached by the path.\<close>

definition SetEntry ::
  "string \<Rightarrow> skymsg_Service \<Rightarrow> string \<Rightarrow> string list \<Rightarrow> treeCache \<Rightarrow> treeCache" where
  "SetEntry key val fqdn path c =
     ensureChildNode path
       (\<lambda>n. TreeCache (ChildNodes n) (AList.update key (val, fqdn) (Entries n))) c"

text \<open>\<open>SetSubCache(childLabel, subtree, pathLabels...)\<close>: replace the child node below the
  node reached by the path wholesale.\<close>

definition SetSubCache :: "string \<Rightarrow> treeCache \<Rightarrow> string list \<Rightarrow> treeCache \<Rightarrow> treeCache" where
  "SetSubCache key subCache path c =
     ensureChildNode path
       (\<lambda>n. TreeCache (AList.update key subCache (ChildNodes n)) (Entries n)) c"

text \<open>\<open>GetEntry(leafKey, pathLabels...)\<close>: exact leaf lookup at one node.\<close>

definition GetEntry :: "string \<Rightarrow> string list \<Rightarrow> treeCache \<Rightarrow> skymsg_Service option" where
  "GetEntry key path c =
     (case getSubCache path c of
        None \<Rightarrow> None
      | Some n \<Rightarrow> map_option fst (map_of (Entries n) key))"

text \<open>\<open>DeletePath(pathLabels...)\<close>: remove the node at the path and prune the ancestors
  that are left empty; the result tells whether a node was removed.\<close>

fun DeletePath :: "string list \<Rightarrow> treeCache \<Rightarrow> treeCache \<times> bool" where
  "DeletePath [] c = (c, False)"
| "DeletePath [p] c =
     (if map_of (ChildNodes c) p \<noteq> None
      then (TreeCache (AList.delete p (ChildNodes c)) (Entries c), True)
      else (c, False))"
| "DeletePath (p # q # ps) c =
     (case map_of (ChildNodes c) p of
        None \<Rightarrow> (c, False)
      | Some n \<Rightarrow>
          (case DeletePath (q # ps) n of (n', removed) \<Rightarrow>
             if removed \<and> ChildNodes n' = [] \<and> Entries n' = []
             then (TreeCache (AList.delete p (ChildNodes c)) (Entries c), True)
             else (TreeCache (AList.update p n' (ChildNodes c)) (Entries c), removed)))"

text \<open>
  \<open>GetValuesForPathWithWildcards(pathLabels...)\<close>: the nodes addressed by the path, where
  the segment \<^verbatim>\<open>*\<close> descends into every child (children in the order of their labels);
  from each of them all leaves of the node (in the order of their keys) and, recursively,
  of its descendants; without duplicates.
\<close>

fun nodesForPath :: "string list \<Rightarrow> treeCache \<Rightarrow> treeCache list" where
  "nodesForPath [] c = [c]"
| "nodesForPath (p # ps) c =
     (if p = ''*''
      then concat (map (\<lambda>kn. nodesForPath ps (snd kn)) (sort_key fst (ChildNodes c)))
      else (case map_of (ChildNodes c) p of None \<Rightarrow> [] | Some n \<Rightarrow> nodesForPath ps n))"

function allLeaves :: "treeCache \<Rightarrow> skymsg_Service list" where
  "allLeaves (TreeCache ch en) =
     map (\<lambda>kv. fst (snd kv)) (sort_key fst en)
     @ concat (map (\<lambda>kn. allLeaves (snd kn)) (sort_key fst ch))"
  by pat_completeness auto
termination
proof (relation "measure size")
  show "wf (measure size)" by simp
next
  fix ch :: "(string \<times> treeCache) list"
    and en :: "(string \<times> (skymsg_Service \<times> string)) list"
    and kn :: "string \<times> treeCache"
  assume "kn \<in> set (sort_key fst ch)"
  then have "kn \<in> set ch" by simp
  then have "size (snd kn) < Suc (size_list (size_prod (\<lambda>_. 0) size) ch)"
    by (induction ch) (auto simp: less_Suc_eq_le)
  then show "(snd kn, TreeCache ch en) \<in> measure size" by simp
qed

definition GetValuesForPathWithWildcards :: "string list \<Rightarrow> treeCache \<Rightarrow> skymsg_Service list" where
  "GetValuesForPathWithWildcards path c = remdups (concat (map allLeaves (nodesForPath path c)))"

section \<open>Further library functions: hashing, formatting, \<open>dns.Fqdn\<close>\<close>

text \<open>\<open>hash/fnv\<close>, 32-bit FNV-1a: start from the offset basis; for each byte, exclusive-or
  it into the hash and multiply by the prime, modulo \<open>2^32\<close>.\<close>

definition fnv32a :: "string \<Rightarrow> 32 word" where
  "fnv32a s = fold (\<lambda>c h. (h XOR of_nat (of_char c)) * 16777619) s 2166136261"

text \<open>\<open>fmt.Sprintf("%v", msg)\<close> for a pointer to a record payload: the field values
  between \<^verbatim>\<open>&{\<close> and \<^verbatim>\<open>}\<close>, separated by blanks; the fields of the library's
  struct that the repository never sets print as the empty text, \<^verbatim>\<open>false\<close>,
  \<^verbatim>\<open>0\<close> and two empty strings.\<close>

definition Sprintf_v :: "skymsg_Service \<Rightarrow> string" where
  "Sprintf_v msg =
     ''&{'' @ Host msg @ '' '' @ itoa (Port msg) @ '' '' @ itoa (Priority msg) @ '' ''
     @ itoa (Weight msg) @ ''  false '' @ uitoa (Ttl msg) @ '' 0  }''"

text \<open>\<open>dns.Fqdn\<close> of the DNS library: a name that does not end in a dot gets one.\<close>

definition Fqdn :: "string \<Rightarrow> string" where
  "Fqdn s = (if s \<noteq> [] \<and> last s = CHR ''.'' then s else s @ ''.'')"

section \<open>pkg/dns/util/util.go\<close>

definition ArpaSuffix :: string where
  "ArpaSuffix = ''.in-addr.arpa.''"

text \<open>
  \<open>ReverseArray\<close> swaps in place: for \<open>i\<close> from \<open>0\<close> below \<open>len(arr)/2\<close> it exchanges
  \<open>arr[i]\<close> and \<open>arr[len(arr)-i-1]\<close>, then returns the same slice.
\<close>

function ReverseArray_loop :: "nat \<Rightarrow> 'a list \<Rightarrow> 'a list" where
  "ReverseArray_loop i arr =
     (if i < length arr div 2
      then (let j = length arr - i - 1
            in ReverseArray_loop (i + 1) (arr[i := arr ! j, j := arr ! i]))
      else arr)"
  by pat_completeness auto
termination
  by (relation "measure (\<lambda>(i, arr). length arr div 2 - i)") auto

declare ReverseArray_loop.simps [simp del]

definition ReverseArray :: "'a list \<Rightarrow> 'a list" where
  "ReverseArray arr = ReverseArray_loop 0 arr"

text \<open>\<open>ExtractIP\<close> turns a PTR lookup name into an IP address.\<close>

definition ExtractIP :: "string \<Rightarrow> string \<times> bool" where
  "ExtractIP reverseName =
     (if \<not> HasSuffix reverseName ArpaSuffix then ('''', False)
      else (let search = TrimSuffix reverseName ArpaSuffix;
                segments = ReverseArray (Split search CHR ''.'')
            in (Join segments ''.'', True)))"

definition defaultPriority :: int where
  "defaultPriority = 10"

definition defaultWeight :: int where
  "defaultWeight = 10"

definition defaultTTL :: nat where
  "defaultTTL = 30"

definition NewServiceRecord :: "string \<Rightarrow> int \<Rightarrow> skymsg_Service" where
  "NewServiceRecord ip port =
     \<lparr>Host = ip, Port = port, Priority = defaultPriority, Weight = defaultWeight,
      Ttl = defaultTTL\<rparr>"

definition HashServiceRecord :: "skymsg_Service \<Rightarrow> string" where
  "HashServiceRecord msg = hex_of_nat (unat (fnv32a (Sprintf_v msg)))"

text \<open>\<open>GetSkyMsg\<close> returns the record and the label derived from its hash: the hash is
  already a string, and it is printed with \<open>%x\<close> once more.\<close>

definition GetSkyMsg :: "string \<Rightarrow> int \<Rightarrow> skymsg_Service \<times> string" where
  "GetSkyMsg ip port =
     (let msg = NewServiceRecord ip port;
          hash = HashServiceRecord msg
      in (msg, hex_of_string hash))"

definition ValidateNameserverIpAndPort :: "string \<Rightarrow> error + (string \<times> string)" where
  "ValidateNameserverIpAndPort nameServer =
     (case ParseIP nameServer of
        Some ip \<Rightarrow> Inr (IP_String ip, ''53'')
      | None \<Rightarrow>
          (case SplitHostPort nameServer of
             Inl err \<Rightarrow> Inl (SplitHostPortError err)
           | Inr (host, port) \<Rightarrow>
               if ParseIP host = None then Inl (BadIPAddress host)
               else (case Atoi port of
                       None \<Rightarrow> Inl (BadPortNumber port)
                     | Some p \<Rightarrow>
                         if p < 1 \<or> 65535 < p then Inl (BadPortNumber port)
                         else Inr (host, port))))"

definition IsServiceIPSet :: "Service \<Rightarrow> bool" where
  "IsServiceIPSet service \<longleftrightarrow> ClusterIP service \<noteq> ClusterIPNone \<and> ClusterIP service \<noteq> []"

definition GetClusterIPs :: "Service \<Rightarrow> string list" where
  "GetClusterIPs service =
     (if 0 < length (ClusterIPs service) then ClusterIPs service else [ClusterIP service])"

section \<open>pkg/dns/dns.go\<close>

definition serviceSubdomain :: string where
  "serviceSubdomain = ''svc''"

definition podSubdomain :: string where
  "podSubdomain = ''pod''"

text \<open>
  The state of the engine. The stores of the informers map the key
  \<open>namespace/name\<close> to the object; \<open>kubeClient\<close> stands for what the API server answers
  to the one call the engine makes, the list of nodes (\<open>None\<close> when the call fails);
  \<open>SkyDNSConfig\<close> and \<open>config\<close> are pointers and may be nil.
\<close>

record KubeDNS =
  kubeClient :: "Node list option"
  SkyDNSConfig :: "skydns_Config option"
  domain :: string
  endpointsStore :: "string \<rightharpoonup> obj"
  servicesStore :: "string \<rightharpoonup> obj"
  nodesStore :: "obj list"
  cache :: treeCache
  reverseRecordMap :: "string \<rightharpoonup> skymsg_Service"
  clusterIPServiceMap :: "string \<rightharpoonup> Service"
  domainPath :: "string list"
  config :: "Config option"

definition NewKubeDNS :: "Node list option \<Rightarrow> string \<Rightarrow> KubeDNS" where
  "NewKubeDNS client clusterDomain =
     \<lparr>kubeClient = client,
      SkyDNSConfig = None,
      domain = clusterDomain,
      endpointsStore = Map.empty,
      servicesStore = Map.empty,
      nodesStore = [],
      cache = NewTreeCache,
      reverseRecordMap = Map.empty,
      clusterIPServiceMap = Map.empty,
      domainPath = ReverseArray (Split (TrimRight clusterDomain ''.'') CHR ''.''),
      config = None\<rparr>"

text \<open>\<open>loadDefaultNameserver\<close> reads the resolver configuration of the host; the argument
  is its content, the servers and the port, or \<open>None\<close> when the file cannot be read.\<close>

definition loadDefaultNameserver :: "(string list \<times> string) option \<Rightarrow> string list" where
  "loadDefaultNameserver resolv =
     (case resolv of
        None \<Rightarrow> []
      | Some (servers, port) \<Rightarrow> map (\<lambda>s. JoinHostPort s port) servers)"

text \<open>The loop of \<open>updateConfig\<close> over the upstream nameservers: \<open>None\<close> at the first one
  that fails validation, the addresses collected otherwise.\<close>

fun updateConfig_loop :: "string list \<Rightarrow> string list \<Rightarrow> string list option" where
  "updateConfig_loop [] nameServers = Some nameServers"
| "updateConfig_loop (nameServer # rest) nameServers =
     (case ValidateNameserverIpAndPort nameServer of
        Inl err \<Rightarrow> None
      | Inr (ip, port) \<Rightarrow> updateConfig_loop rest (nameServers @ [JoinHostPort ip port]))"

definition updateConfig ::
  "(string list \<times> string) option \<Rightarrow> Config \<Rightarrow> KubeDNS \<Rightarrow> KubeDNS" where
  "updateConfig resolv nextConfig kd =
     (case SkyDNSConfig kd of
        None \<Rightarrow> kd\<lparr>config := Some nextConfig\<rparr>
      | Some sky \<Rightarrow>
          (case updateConfig_loop (UpstreamNameservers nextConfig) [] of
             None \<Rightarrow>
               (if length (Nameservers sky) = 0
                then kd\<lparr>SkyDNSConfig := Some (sky\<lparr>Nameservers := loadDefaultNameserver resolv\<rparr>)\<rparr>
                else kd)
           | Some nameServers \<Rightarrow>
               (if length nameServers = 0
                then kd\<lparr>SkyDNSConfig := Some (sky\<lparr>Nameservers := loadDefaultNameserver resolv\<rparr>),
                        config := Some nextConfig\<rparr>
                else kd\<lparr>SkyDNSConfig := Some (sky\<lparr>Nameservers := nameServers\<rparr>),
                        config := Some nextConfig\<rparr>)))"

text \<open>\<open>kcache.MetaNamespaceKeyFunc\<close> of the client library: \<open>namespace/name\<close>, or the name
  alone for an object without namespace.\<close>

definition MetaNamespaceKeyFunc :: "string \<Rightarrow> string \<Rightarrow> string" where
  "MetaNamespaceKeyFunc namespace name =
     (if 0 < length namespace then namespace @ ''/'' @ name else name)"

definition getServiceFromEndpoints :: "KubeDNS \<Rightarrow> Endpoints \<Rightarrow> error + Service option" where
  "getServiceFromEndpoints kd e =
     (case servicesStore kd (MetaNamespaceKeyFunc (e_Namespace e) (e_Name e)) of
        None \<Rightarrow> Inr None
      | Some (ServiceObj svc) \<Rightarrow> Inr (Some svc)
      | Some _ \<Rightarrow> Inl NonServiceObjectInStore)"

definition fqdn :: "KubeDNS \<Rightarrow> Service \<Rightarrow> string list \<Rightarrow> string" where
  "fqdn kd service subpaths =
     (let domainLabels =
            (domainPath kd @ [serviceSubdomain, Namespace service, Name service]) @ subpaths
      in Fqdn (Join (ReverseArray domainLabels) ''.''))"

definition getServiceFQDN :: "string \<Rightarrow> Service \<Rightarrow> string" where
  "getServiceFQDN domain_name service =
     Join [Name service, Namespace service, serviceSubdomain, domain_name] ''.''"

definition getHostname :: "EndpointAddress \<Rightarrow> string \<times> bool" where
  "getHostname address =
     (if 0 < length (Hostname address) then (Hostname address, True) else ([], False))"

definition generateSRVRecordValue ::
  "KubeDNS \<Rightarrow> Service \<Rightarrow> int \<Rightarrow> string list \<Rightarrow> skymsg_Service" where
  "generateSRVRecordValue kd svc portNumber labels =
     (let host = Join [Name svc, Namespace svc, serviceSubdomain, domain kd] ''.'';
          host = fold (\<lambda>cNameLabel host. cNameLabel @ ''.'' @ host) labels host
      in fst (GetSkyMsg host portNumber))"

text \<open>\<open>newPortalService\<close>: the body of the loop over the ports, the body of the loop over
  the cluster IPs, and the function itself.\<close>

definition newPortalService_port ::
  "KubeDNS \<Rightarrow> Service \<Rightarrow> string \<Rightarrow> ServicePort \<Rightarrow> treeCache \<Rightarrow> treeCache" where
  "newPortalService_port kd service recordLabel port subCache =
     (if sp_Name port = [] \<or> sp_Protocol port = [] then subCache
      else (let srvValue = generateSRVRecordValue kd service (sp_Port port) [];
                l = [''_'' @ ToLower (sp_Protocol port), ''_'' @ sp_Name port]
            in SetEntry recordLabel srvValue (fqdn kd service (l @ [recordLabel])) l subCache))"

definition newPortalService_ip :: "KubeDNS \<Rightarrow> Service \<Rightarrow> string \<Rightarrow> treeCache \<Rightarrow> treeCache" where
  "newPortalService_ip kd service ip subCache =
     (case GetSkyMsg ip 0 of (recordValue, recordLabel) \<Rightarrow>
        fold (newPortalService_port kd service recordLabel) (Ports service)
          (SetEntry recordLabel recordValue (fqdn kd service [recordLabel]) [] subCache))"

definition newPortalService_subCache :: "KubeDNS \<Rightarrow> Service \<Rightarrow> treeCache" where
  "newPortalService_subCache kd service =
     fold (newPortalService_ip kd service) (GetClusterIPs service) NewTreeCache"

definition newPortalService :: "KubeDNS \<Rightarrow> Service \<Rightarrow> KubeDNS" where
  "newPortalService kd service =
     (let subCache = newPortalService_subCache kd service;
          clusterIPs = GetClusterIPs service;
          subCachePath = domainPath kd @ [serviceSubdomain, Namespace service];
          host = getServiceFQDN (domain kd) service;
          reverseRecord = fst (GetSkyMsg host 0)
      in kd\<lparr>cache := SetSubCache (Name service) subCache subCachePath (cache kd),
             reverseRecordMap :=
               fold (\<lambda>ip m. m(ip \<mapsto> reverseRecord)) clusterIPs (reverseRecordMap kd),
             clusterIPServiceMap :=
               fold (\<lambda>ip m. m(ip \<mapsto> service)) clusterIPs (clusterIPServiceMap kd)\<rparr>)"

text \<open>\<open>generateRecordsForHeadlessService\<close>: the loops carry the subtree under construction
  and the map \<open>generatedRecords\<close> of reverse records.\<close>

definition headless_port ::
  "KubeDNS \<Rightarrow> Service \<Rightarrow> string \<Rightarrow> EndpointPort \<Rightarrow> treeCache \<Rightarrow> treeCache" where
  "headless_port kd svc endpointName endpointPort subCache =
     (if ep_Name endpointPort \<noteq> [] \<and> ep_Protocol endpointPort \<noteq> []
      then (let srvValue = generateSRVRecordValue kd svc (ep_Port endpointPort) [endpointName];
                l = [''_'' @ ToLower (ep_Protocol endpointPort), ''_'' @ ep_Name endpointPort]
            in SetEntry endpointName srvValue (fqdn kd svc (l @ [endpointName])) l subCache)
      else subCache)"

definition headless_address ::
  "KubeDNS \<Rightarrow> Service \<Rightarrow> EndpointPort list \<Rightarrow> EndpointAddress
   \<Rightarrow> treeCache \<times> (string \<rightharpoonup> skymsg_Service) \<Rightarrow> treeCache \<times> (string \<rightharpoonup> skymsg_Service)" where
  "headless_address kd svc ports address st =
     (case st of (subCache, generatedRecords) \<Rightarrow>
        (let endpointIP = IP address;
             recordValue = fst (GetSkyMsg endpointIP 0);
             endpointName = (if snd (getHostname address) then fst (getHostname address)
                             else snd (GetSkyMsg endpointIP 0));
             subCache = SetEntry endpointName recordValue (fqdn kd svc [endpointName]) [] subCache;
             subCache = fold (headless_port kd svc endpointName) ports subCache
         in if snd (getHostname address)
            then (subCache,
                  generatedRecords(endpointIP \<mapsto> fst (GetSkyMsg (fqdn kd svc [endpointName]) 0)))
            else (subCache, generatedRecords)))"

definition headless_subset ::
  "KubeDNS \<Rightarrow> Service \<Rightarrow> EndpointSubset
   \<Rightarrow> treeCache \<times> (string \<rightharpoonup> skymsg_Service) \<Rightarrow> treeCache \<times> (string \<rightharpoonup> skymsg_Service)" where
  "headless_subset kd svc ss st =
     fold (headless_address kd svc (ss_Ports ss)) (Addresses ss) st"

definition generateRecordsForHeadlessService :: "KubeDNS \<Rightarrow> Endpoints \<Rightarrow> Service \<Rightarrow> KubeDNS" where
  "generateRecordsForHeadlessService kd e svc =
     (case fold (headless_subset kd svc) (Subsets e) (NewTreeCache, Map.empty) of
        (subCache, generatedRecords) \<Rightarrow>
          (let subCachePath = domainPath kd @ [serviceSubdomain, Namespace svc]
           in kd\<lparr>reverseRecordMap := reverseRecordMap kd ++ generatedRecords,
                  cache := SetSubCache (Name svc) subCache subCachePath (cache kd)\<rparr>))"

definition newHeadlessService :: "KubeDNS \<Rightarrow> Service \<Rightarrow> KubeDNS" where
  "newHeadlessService kd service =
     (case endpointsStore kd (MetaNamespaceKeyFunc (Namespace service) (Name service)) of
        None \<Rightarrow> kd
      | Some (EndpointsObj e) \<Rightarrow> generateRecordsForHeadlessService kd e service
      | Some _ \<Rightarrow> kd)"

definition newExternalNameService :: "KubeDNS \<Rightarrow> Service \<Rightarrow> KubeDNS" where
  "newExternalNameService kd service =
     (let recordValue = fst (GetSkyMsg (ExternalName service) 0);
          cachePath = domainPath kd @ [serviceSubdomain, Namespace service]
      in kd\<lparr>cache := SetEntry (Name service) recordValue (fqdn kd service []) cachePath (cache kd)\<rparr>)"

text \<open>The handlers of the service informer. An object that is not a service is dropped.\<close>

definition newService :: "KubeDNS \<Rightarrow> obj \<Rightarrow> KubeDNS" where
  "newService kd ob =
     (case ob of
        ServiceObj service \<Rightarrow>
          if Type service = ServiceTypeExternalName then newExternalNameService kd service
          else if \<not> IsServiceIPSet service then newHeadlessService kd service
          else newPortalService kd service
      | _ \<Rightarrow> kd)"

definition removeService :: "KubeDNS \<Rightarrow> obj \<Rightarrow> KubeDNS" where
  "removeService kd ob =
     (case ob of
        ServiceObj s \<Rightarrow>
          (let subCachePath = domainPath kd @ [serviceSubdomain, Namespace s, Name s];
               kd = kd\<lparr>cache := fst (DeletePath subCachePath (cache kd))\<rparr>
           in if IsServiceIPSet s
              then kd\<lparr>reverseRecordMap :=
                         fold (\<lambda>ip m. m(ip := None)) (GetClusterIPs s) (reverseRecordMap kd),
                       clusterIPServiceMap :=
                         fold (\<lambda>ip m. m(ip := None)) (GetClusterIPs s) (clusterIPServiceMap kd)\<rparr>
              else kd)
      | _ \<Rightarrow> kd)"

definition updateService :: "KubeDNS \<Rightarrow> obj \<Rightarrow> obj \<Rightarrow> KubeDNS" where
  "updateService kd oldObj newObj =
     (case newObj of
        ServiceObj new \<Rightarrow>
          (case oldObj of
             ServiceObj old \<Rightarrow>
               (let kd = (if (Type new = ServiceTypeExternalName)
                             \<noteq> (Type old = ServiceTypeExternalName)
                          then removeService kd oldObj else kd)
                in newService kd newObj)
           | _ \<Rightarrow> kd)
      | _ \<Rightarrow> kd)"

text \<open>The handlers of the endpoints informer.\<close>

definition addDNSUsingEndpoints :: "KubeDNS \<Rightarrow> Endpoints \<Rightarrow> error + KubeDNS" where
  "addDNSUsingEndpoints kd e =
     (case getServiceFromEndpoints kd e of
        Inl err \<Rightarrow> Inl err
      | Inr None \<Rightarrow> Inr kd
      | Inr (Some svc) \<Rightarrow>
          if IsServiceIPSet svc \<or> Type svc = ServiceTypeExternalName then Inr kd
          else Inr (generateRecordsForHeadlessService kd e svc))"

definition handleEndpointAdd :: "KubeDNS \<Rightarrow> obj \<Rightarrow> KubeDNS" where
  "handleEndpointAdd kd ob =
     (case ob of
        EndpointsObj e \<Rightarrow>
          (case addDNSUsingEndpoints kd e of Inl err \<Rightarrow> kd | Inr kd' \<Rightarrow> kd')
      | _ \<Rightarrow> kd)"

text \<open>The addresses of an endpoints object in the order of the two nested loops over the
  subsets and their addresses.\<close>

definition allAddresses :: "Endpoints \<Rightarrow> EndpointAddress list" where
  "allAddresses e = concat (map Addresses (Subsets e))"

text \<open>\<open>oldAddressMap\<close> of \<open>handleEndpointUpdate\<close>: first every old address with a hostname is
  entered, then every entry whose address is in the new object with a hostname is
  removed again.\<close>

definition oldAddressMap :: "Endpoints \<Rightarrow> Endpoints \<Rightarrow> (string \<rightharpoonup> bool)" where
  "oldAddressMap oldEndpoints newEndpoints =
     fold (\<lambda>address m.
             if m (IP address) \<noteq> None
             then (if snd (getHostname address) then m(IP address := None) else m)
             else m)
       (allAddresses newEndpoints)
       (fold (\<lambda>address m. if snd (getHostname address) then m(IP address \<mapsto> True) else m)
          (allAddresses oldEndpoints) Map.empty)"

definition handleEndpointUpdate :: "KubeDNS \<Rightarrow> obj \<Rightarrow> obj \<Rightarrow> KubeDNS" where
  "handleEndpointUpdate kd oldObj newObj =
     (case oldObj of
        EndpointsObj oldEndpoints \<Rightarrow>
          (case newObj of
             EndpointsObj newEndpoints \<Rightarrow>
               (let kd =
                  (case getServiceFromEndpoints kd oldEndpoints of
                     Inr (Some svc) \<Rightarrow>
                       if \<not> IsServiceIPSet svc
                       then kd\<lparr>reverseRecordMap :=
                                  (\<lambda>k. if oldAddressMap oldEndpoints newEndpoints k \<noteq> None
                                       then None else reverseRecordMap kd k)\<rparr>
                       else kd
                   | _ \<Rightarrow> kd)
                in handleEndpointAdd kd newObj)
           | _ \<Rightarrow> kd)
      | _ \<Rightarrow> kd)"

definition handleEndpointDelete :: "KubeDNS \<Rightarrow> obj \<Rightarrow> KubeDNS" where
  "handleEndpointDelete kd ob =
     (case ob of
        EndpointsObj endpoints \<Rightarrow>
          (case getServiceFromEndpoints kd endpoints of
             Inl err \<Rightarrow> kd
           | Inr None \<Rightarrow> kd
           | Inr (Some svc) \<Rightarrow>
               if \<not> IsServiceIPSet svc
               then kd\<lparr>reverseRecordMap :=
                          fold (\<lambda>address m.
                                  if snd (getHostname address) then m(IP address := None) else m)
                            (allAddresses endpoints) (reverseRecordMap kd)\<rparr>
               else kd)
      | _ \<Rightarrow> kd)"

text \<open>The query side.\<close>

definition isHeadlessServiceRecord :: "KubeDNS \<Rightarrow> skymsg_Service \<Rightarrow> bool" where
  "isHeadlessServiceRecord kd msg \<longleftrightarrow> clusterIPServiceMap kd (Host msg) = None"

definition serviceWithClusterIPHasEndpoints :: "KubeDNS \<Rightarrow> skymsg_Service \<Rightarrow> error + bool" where
  "serviceWithClusterIPHasEndpoints kd msg =
     (case clusterIPServiceMap kd (Host msg) of
        None \<Rightarrow> Inl HeadlessServiceNotExpected
      | Some svc \<Rightarrow>
          (case endpointsStore kd (MetaNamespaceKeyFunc (Namespace svc) (Name svc)) of
             None \<Rightarrow> Inr False
           | Some (EndpointsObj e) \<Rightarrow> Inr (0 < length (Subsets e))
           | Some _ \<Rightarrow> Inl NonEndpointObjectInStore))"

text \<open>\<open>isPodRecord\<close>, e.g. \<^verbatim>\<open>{"local", "cluster", "pod", "default", "10-0-0-1"}\<close>.\<close>

definition isPodRecord :: "KubeDNS \<Rightarrow> string list \<Rightarrow> bool" where
  "isPodRecord kd path =
     (if length path \<noteq> length (domainPath kd) + 3 then False
      else if path ! length (domainPath kd) \<noteq> podSubdomain then False
      else if list_ex (\<lambda>segment. segment = ''*'') path then False
      else True)"

definition getPodIP :: "string list \<Rightarrow> error + string" where
  "getPodIP path =
     (let ipStr = path ! (length path - 1);
          ip = Replace ipStr CHR ''-'' CHR ''.''
      in if ParseIP ip \<noteq> None then Inr ip else Inl (InvalidIPAddress ip))"

text \<open>
  \<open>getRecordsForPath\<close>. Every caller passes a path with at least one label; on the empty
  path the exact branch would index out of range.
\<close>

definition getRecordsForPath :: "KubeDNS \<Rightarrow> string list \<Rightarrow> bool \<Rightarrow> error + skymsg_Service list" where
  "getRecordsForPath kd path exact =
     (if isPodRecord kd path then
        (case getPodIP path of
           Inr ip \<Rightarrow> Inr [fst (GetSkyMsg ip 0)]
         | Inl err \<Rightarrow> Inl err)
      else if exact then
        (if path = [] then Inl IndexOutOfRange
         else (let key = path ! (length path - 1)
               in if key = [] then Inr []
                  else (case GetEntry key (take (length path - 1) path) (cache kd) of
                          Some record \<Rightarrow> Inr [record]
                        | None \<Rightarrow> Inl ErrorCodeKeyNotFound)))
      else Inr (GetValuesForPathWithWildcards path (cache kd)))"

text \<open>
  \<open>isFederationQuery\<close>. The loop over \<open>kd.domainPath\<close> compares its \<open>i\<close>-th component with
  \<open>path[len(path)-i-1]\<close>. The last test reads \<open>kd.config.Federations\<close>; with no
  configuration installed this is a nil dereference.
\<close>

fun domainPath_loop :: "nat \<Rightarrow> string list \<Rightarrow> string list \<Rightarrow> bool" where
  "domainPath_loop i [] path = True"
| "domainPath_loop i (domComp # rest) path =
     (if domComp \<noteq> path ! (length path - i - 1) then False
      else domainPath_loop (Suc i) rest path)"

definition isFederationQuery :: "KubeDNS \<Rightarrow> string list \<Rightarrow> error + bool" where
  "isFederationQuery kd path =
     (if length path \<noteq> 4 + length (domainPath kd) then Inr False
      else if length (IsDNS1035Label (path ! 0)) \<noteq> 0 then Inr False
      else if length (IsDNS1123Label (path ! 1)) \<noteq> 0 then Inr False
      else if length (IsDNS1123Label (path ! 2)) \<noteq> 0 then Inr False
      else if path ! 3 \<noteq> serviceSubdomain then Inr False
      else if \<not> domainPath_loop 0 (domainPath kd) path then Inr False
      else (case config kd of
              None \<Rightarrow> Inl NilConfigDereference
            | Some cfg \<Rightarrow>
                (case Federations cfg (path ! 2) of
                   None \<Rightarrow> Inr False
                 | Some _ \<Rightarrow> Inr True)))"

text \<open>
  \<open>getClusterZoneAndRegion\<close> takes the first node of the node store; when the store is
  empty it lists the nodes of the cluster, takes the first one with both labels and puts
  it into the store. The state is returned with the result.
\<close>

definition getClusterZoneAndRegion :: "KubeDNS \<Rightarrow> (error + (string \<times> string)) \<times> KubeDNS" where
  "getClusterZoneAndRegion kd =
     (let found =
        (if 0 < length (nodesStore kd) then
           (case nodesStore kd ! 0 of
              NodeObj node \<Rightarrow> Inr (Some node, kd)
            | _ \<Rightarrow> Inl ExpectedNodeObject)
         else
           (case kubeClient kd of
              None \<Rightarrow> Inl FailedToRetrieveClusterNodes
            | Some items \<Rightarrow>
                if length items = 0 then Inl FailedToRetrieveClusterNodes
                else (case find (\<lambda>nodeItem. Labels nodeItem LabelZoneFailureDomain \<noteq> None
                                           \<and> Labels nodeItem LabelZoneRegion \<noteq> None) items of
                        None \<Rightarrow> Inr (None, kd)
                      | Some node \<Rightarrow> Inr (Some node, kd\<lparr>nodesStore := [NodeObj node]\<rparr>))))
      in case found of
           Inl err \<Rightarrow> (Inl err, kd)
         | Inr (None, kd') \<Rightarrow> (Inl CouldNotFindAnyNodes, kd')
         | Inr (Some node, kd') \<Rightarrow>
             (case Labels node LabelZoneFailureDomain of
                None \<Rightarrow> (Inl UnknownClusterZone, kd')
              | Some zone \<Rightarrow>
                  if zone = [] then (Inl UnknownClusterZone, kd')
                  else (case Labels node LabelZoneRegion of
                          None \<Rightarrow> (Inl UnknownClusterRegion, kd')
                        | Some region \<Rightarrow>
                            if region = [] then (Inl UnknownClusterRegion, kd')
                            else (Inr (zone, region), kd'))))"

text \<open>A payload built as \<^verbatim>\<open>skymsg.Service{Host: name}\<close>: every other field has its zero
  value.\<close>

definition Service_Host_only :: "string \<Rightarrow> skymsg_Service" where
  "Service_Host_only name = \<lparr>Host = name, Port = 0, Priority = 0, Weight = 0, Ttl = 0\<rparr>"

definition federationRecords ::
  "KubeDNS \<Rightarrow> string list \<Rightarrow> (error + skymsg_Service list) \<times> KubeDNS" where
  "federationRecords kd queryPath =
     (let path = ReverseArray queryPath
      in case isFederationQuery kd path of
           Inl err \<Rightarrow> (Inl err, kd)
         | Inr False \<Rightarrow> (Inl ErrorCodeKeyNotFound, kd)
         | Inr True \<Rightarrow>
             (let path = take (length path - length (domainPath kd)) path
              in case getClusterZoneAndRegion kd of
                   (Inl err, kd') \<Rightarrow> (Inl (FailedToObtainZoneAndRegion err), kd')
                 | (Inr (zone, region), kd') \<Rightarrow>
                     (let path = path @ [zone, region]
                      in case config kd' of
                           None \<Rightarrow> (Inl NilConfigDereference, kd')
                         | Some cfg \<Rightarrow>
                             (let dom_name = (case Federations cfg (path ! 2) of
                                                None \<Rightarrow> [] | Some d \<Rightarrow> d)
                              in if length (IsDNS1123Subdomain dom_name) \<noteq> 0
                                 then (Inl (NotAValidDomainName dom_name (path ! 2)), kd')
                                 else (let name = Join (path @ [dom_name]) ''.'';
                                           name = (if \<not> HasSuffix name ''.'' then name @ ''.''
                                                   else name)
                                       in (Inr [Service_Host_only name], kd'))))))"

text \<open>The loop of \<open>recordsForFederation\<close> that looks for a valid record: a record of a
  headless service is valid, a record of a service with a cluster IP is valid when the
  service has endpoints; an error of the check skips the record.\<close>

fun validRecord_loop :: "KubeDNS \<Rightarrow> skymsg_Service list \<Rightarrow> bool" where
  "validRecord_loop kd [] = False"
| "validRecord_loop kd (val # vals) =
     (if \<not> isHeadlessServiceRecord kd val
      then (case serviceWithClusterIPHasEndpoints kd val of
              Inl err \<Rightarrow> validRecord_loop kd vals
            | Inr ok \<Rightarrow> if \<not> ok then validRecord_loop kd vals else True)
      else True)"

definition recordsForFederation ::
  "KubeDNS \<Rightarrow> skymsg_Service list \<Rightarrow> string list \<Rightarrow> bool \<Rightarrow> string list
   \<Rightarrow> (error + skymsg_Service list) \<times> KubeDNS" where
  "recordsForFederation kd records path exact federationSegments =
     (let validRecord = validRecord_loop kd records
      in if validRecord then
           (let name = Join (ReverseArray path) ''.'';
                name = (if \<not> HasSuffix name ''.'' then name @ ''.'' else name)
            in (Inr [Service_Host_only name], kd))
         else if \<not> exact then federationRecords kd (ReverseArray federationSegments)
         else (Inl ErrorCodeKeyNotFound, kd))"

definition Records :: "KubeDNS \<Rightarrow> string \<Rightarrow> bool \<Rightarrow> (error + skymsg_Service list) \<times> KubeDNS" where
  "Records kd name exact =
     (let trimmed = TrimRight name ''.'';
          segments = Split trimmed CHR ''.''
      in case (if \<not> exact then isFederationQuery kd segments else Inr False) of
           Inl err \<Rightarrow> (Inl err, kd)
         | Inr isFedQuery \<Rightarrow>
             (let federationSegments = (if isFedQuery then segments else []);
                  segments = (if isFedQuery then take 2 segments @ drop 3 segments
                              else segments);
                  path = ReverseArray segments
              in case getRecordsForPath kd path exact of
                   Inl err \<Rightarrow> (Inl err, kd)
                 | Inr records \<Rightarrow>
                     if isFedQuery
                     then recordsForFederation kd records path exact federationSegments
                     else if 0 < length records then (Inr records, kd)
                     else (Inl ErrorCodeKeyNotFound, kd)))"

definition ReverseRecord :: "KubeDNS \<Rightarrow> string \<Rightarrow> error + skymsg_Service" where
  "ReverseRecord kd name =
     (case ExtractIP name of
        (portalIP, ok) \<Rightarrow>
          if \<not> ok then Inl (NoReverseLookup name)
          else (case reverseRecordMap kd portalIP of
                  Some reverseRecord \<Rightarrow> Inr reverseRecord
                | None \<Rightarrow> Inl MustBeExactlyOneServiceRecord))"

text \<open>Two predicates on an endpoints object, used to state what the handlers do: some
  address has the given IP, and some address has the given IP and a hostname.\<close>

definition hasNamedAddress :: "Endpoints \<Rightarrow> string \<Rightarrow> bool" where
  "hasNamedAddress e ip \<longleftrightarrow> list_ex (\<lambda>a. IP a = ip \<and> Hostname a \<noteq> []) (allAddresses e)"

definition hasAddress :: "Endpoints \<Rightarrow> string \<Rightarrow> bool" where
  "hasAddress e ip \<longleftrightarrow> list_ex (\<lambda>a. IP a = ip) (allAddresses e)"

text \<open>
  The informers. The stores and the delivery of events belong to the informer framework
  (k8s.io/client-go/tools/cache, \<open>NewInformer\<close>), which \<open>setServicesStore\<close> and
  \<open>setEndpointsStore\<close> only configure with the six handlers. The framework applies each
  change to its store and then calls the handler: on an add or an update the object is
  put under its key \<open>namespace/name\<close> before \<open>AddFunc\<close> or \<open>UpdateFunc\<close> runs, on a delete
  the key is removed before \<open>DeleteFunc\<close> runs. An event is one such change, \<open>deliver\<close>
  is the store update followed by the handler registered for it, and \<open>deliverAll\<close> is a
  run of the engine on a sequence of events in the order of their delivery.
\<close>

definition svcKey :: "Service \<Rightarrow> string" where
  "svcKey s = MetaNamespaceKeyFunc (Namespace s) (Name s)"

definition epKey :: "Endpoints \<Rightarrow> string" where
  "epKey e = MetaNamespaceKeyFunc (e_Namespace e) (e_Name e)"

datatype event =
    ServiceAdded Service
  | ServiceUpdated Service Service
  | ServiceDeleted Service
  | EndpointsAdded Endpoints
  | EndpointsUpdated Endpoints Endpoints
  | EndpointsDeleted Endpoints

definition storeUpdate :: "event \<Rightarrow> KubeDNS \<Rightarrow> KubeDNS" where
  "storeUpdate ev kd =
     (case ev of
        ServiceAdded s \<Rightarrow> kd\<lparr>servicesStore := (servicesStore kd)(svcKey s \<mapsto> ServiceObj s)\<rparr>
      | ServiceUpdated old new \<Rightarrow>
          kd\<lparr>servicesStore := (servicesStore kd)(svcKey new \<mapsto> ServiceObj new)\<rparr>
      | ServiceDeleted s \<Rightarrow> kd\<lparr>servicesStore := (servicesStore kd)(svcKey s := None)\<rparr>
      | EndpointsAdded e \<Rightarrow> kd\<lparr>endpointsStore := (endpointsStore kd)(epKey e \<mapsto> EndpointsObj e)\<rparr>
      | EndpointsUpdated old new \<Rightarrow>
          kd\<lparr>endpointsStore := (endpointsStore kd)(epKey new \<mapsto> EndpointsObj new)\<rparr>
      | EndpointsDeleted e \<Rightarrow> kd\<lparr>endpointsStore := (endpointsStore kd)(epKey e := None)\<rparr>)"

definition handler :: "event \<Rightarrow> KubeDNS \<Rightarrow> KubeDNS" where
  "handler ev kd =
     (case ev of
        ServiceAdded s \<Rightarrow> newService kd (ServiceObj s)
      | ServiceUpdated old new \<Rightarrow> updateService kd (ServiceObj old) (ServiceObj new)
      | ServiceDeleted s \<Rightarrow> removeService kd (ServiceObj s)
      | EndpointsAdded e \<Rightarrow> handleEndpointAdd kd (EndpointsObj e)
      | EndpointsUpdated old new \<Rightarrow> handleEndpointUpdate kd (EndpointsObj old) (EndpointsObj new)
      | EndpointsDeleted e \<Rightarrow> handleEndpointDelete kd (EndpointsObj e))"



text \<open>
  The entries that invariant I2 of the specification asks for, read off the two stores:
  \<open>required_at kd k ip\<close> holds when the services store has under the key \<open>k\<close> a service
  that is not of type ExternalName and either has a cluster IP set and \<open>ip\<close> is one of its
  cluster IPs, or is headless and the endpoints object under the same key has an address
  \<open>ip\<close> that carries a hostname. \<open>I2_entries\<close> says that the reverse record map has an
  entry for each of them.
\<close>

definition required_at :: "KubeDNS \<Rightarrow> string \<Rightarrow> string \<Rightarrow> bool" where
  "required_at kd k ip =
     (case servicesStore kd k of
        Some (ServiceObj s) \<Rightarrow>
          Type s \<noteq> ServiceTypeExternalName
          \<and> (if IsServiceIPSet s then ip \<in> set (GetClusterIPs s)
             else (case endpointsStore kd k of
                     Some (EndpointsObj e) \<Rightarrow> hasNamedAddress e ip
                   | _ \<Rightarrow> False))
      | _ \<Rightarrow> False)"




text \<open>
  Vocabulary for the SRV records of a cluster-IP service: a port that has both a name and
  a protocol, the child path \<^verbatim>\<open>["_"+lower(protocol), "_"+portName]\<close> that \<open>newPortalService\<close>
  builds for a port, and the path of the node of a service in the cache,
  \<^verbatim>\<open>[domainPath..., "svc", namespace, name]\<close>.
\<close>

definition srvChildPath :: "ServicePort \<Rightarrow> string list" where
  "srvChildPath port = [''_'' @ ToLower (sp_Protocol port), ''_'' @ sp_Name port]"

definition srvPort :: "ServicePort \<Rightarrow> bool" where
  "srvPort port \<longleftrightarrow> sp_Name port \<noteq> [] \<and> sp_Protocol port \<noteq> []"

definition serviceNode :: "KubeDNS \<Rightarrow> Service \<Rightarrow> string list" where
  "serviceNode kd service = domainPath kd @ [serviceSubdomain, Namespace service, Name service]"

section \<open>Concrete states for the worked examples\<close>

text \<open>The federation scenario of the specification: domain \<open>cluster.local\<close>, one federation
  \<open>myfed\<close> with parent domain \<open>example.com\<close>, one node in zone \<open>z1\<close> of region \<open>r1\<close>.\<close>

definition example_config :: Config where
  "example_config =
     \<lparr>Federations = [''myfed'' \<mapsto> ''example.com''], UpstreamNameservers = []\<rparr>"

definition example_node :: Node where
  "example_node = \<lparr>Labels = [LabelZoneFailureDomain \<mapsto> ''z1'', LabelZoneRegion \<mapsto> ''r1'']\<rparr>"

definition example_kd :: KubeDNS where
  "example_kd = (NewKubeDNS (Some [example_node]) ''cluster.local'')\<lparr>config := Some example_config\<rparr>"

definition example_kd_bad :: KubeDNS where
  "example_kd_bad =
     example_kd\<lparr>config := Some (example_config\<lparr>Federations := [''myfed'' \<mapsto> ''example..com'']\<rparr>)\<rparr>"

definition example_kd_nonodes :: KubeDNS where
  "example_kd_nonodes = example_kd\<lparr>kubeClient := Some []\<rparr>"

definition example_query :: "string list" where
  "example_query = [''mysvc'', ''ns'', ''myfed'', ''svc'', ''cluster'', ''local'']"

definition example_resolv :: "(string list \<times> string) option" where
  "example_resolv = Some ([''8.8.8.8''], ''53'')"

definition example_next_config :: Config where
  "example_next_config =
     \<lparr>Federations = [''newfed'' \<mapsto> ''example.org''],
      UpstreamNameservers = [''1.2.3.4:53'', ''not-an-ip'']\<rparr>"

definition example_kd_sky :: KubeDNS where
  "example_kd_sky = example_kd\<lparr>SkyDNSConfig := Some \<lparr>Nameservers = []\<rparr>\<rparr>"

definition example_kd_sky2 :: KubeDNS where
  "example_kd_sky2 = example_kd\<lparr>SkyDNSConfig := Some \<lparr>Nameservers = [''9.9.9.9:53'']\<rparr>\<rparr>"

text \<open>Headless services: \<open>h1\<close> and \<open>h2\<close> select the same pod \<open>10.0.0.7\<close>, which has the
  hostname \<open>db-0\<close> in the endpoints of \<open>h1\<close> only; and a cluster-IP service \<open>web\<close>.\<close>

definition example_h1 :: Service where
  "example_h1 = \<lparr>Name = ''h1'', Namespace = ''prod'', Type = ''ClusterIP'', ClusterIP = ''None'',
                  ClusterIPs = [], Ports = [], ExternalName = []\<rparr>"

definition example_h2 :: Service where
  "example_h2 = \<lparr>Name = ''h2'', Namespace = ''prod'', Type = ''ClusterIP'', ClusterIP = ''None'',
                  ClusterIPs = [], Ports = [], ExternalName = []\<rparr>"

definition example_e1 :: Endpoints where
  "example_e1 =
     \<lparr>e_Name = ''h1'', e_Namespace = ''prod'',
      Subsets = [\<lparr>Addresses = [\<lparr>IP = ''10.0.0.7'', Hostname = ''db-0''\<rparr>,
                              \<lparr>IP = ''10.0.0.8'', Hostname = ''db-1''\<rparr>],
                  ss_Ports = [\<lparr>ep_Name = ''sql'', ep_Protocol = ''TCP'', ep_Port = 5432\<rparr>]\<rparr>]\<rparr>"

definition example_e1_new :: Endpoints where
  "example_e1_new =
     \<lparr>e_Name = ''h1'', e_Namespace = ''prod'',
      Subsets = [\<lparr>Addresses = [\<lparr>IP = ''10.0.0.7'', Hostname = ''db-0''\<rparr>,
                              \<lparr>IP = ''10.0.0.8'', Hostname = []\<rparr>],
                  ss_Ports = [\<lparr>ep_Name = ''sql'', ep_Protocol = ''TCP'', ep_Port = 5432\<rparr>]\<rparr>]\<rparr>"

definition example_e2 :: Endpoints where
  "example_e2 =
     \<lparr>e_Name = ''h2'', e_Namespace = ''prod'',
      Subsets = [\<lparr>Addresses = [\<lparr>IP = ''10.0.0.7'', Hostname = []\<rparr>],
                  ss_Ports = [\<lparr>ep_Name = ''sql'', ep_Protocol = ''TCP'', ep_Port = 5432\<rparr>]\<rparr>]\<rparr>"

definition example_web :: Service where
  "example_web = \<lparr>Name = ''web'', Namespace = ''prod'', Type = ''ClusterIP'',
                   ClusterIP = ''10.0.0.5'', ClusterIPs = [''10.0.0.5''],
                   Ports = [\<lparr>sp_Name = ''http'', sp_Protocol = ''TCP'', sp_Port = 80\<rparr>],
                   ExternalName = []\<rparr>"

definition example_kd_headless :: KubeDNS where
  "example_kd_headless =
     example_kd\<lparr>servicesStore := [''prod/h1'' \<mapsto> ServiceObj example_h1,
                                  ''prod/h2'' \<mapsto> ServiceObj example_h2],
                endpointsStore := [''prod/h1'' \<mapsto> EndpointsObj example_e1,
                                   ''prod/h2'' \<mapsto> EndpointsObj example_e2]\<rparr>"

definition example_kd_h :: KubeDNS where
  "example_kd_h = handleEndpointAdd example_kd_headless (EndpointsObj example_e1)"



text \<open>An engine whose domain is given with the trailing dot, the port of the service
  \<open>web\<close>, and a port without name.\<close>

definition example_kd_dot :: KubeDNS where
  "example_kd_dot = NewKubeDNS (Some [example_node]) ''cluster.local.''"

definition example_port :: ServicePort where
  "example_port = \<lparr>sp_Name = ''http'', sp_Protocol = ''TCP'', sp_Port = 80\<rparr>"

definition example_port_unnamed :: ServicePort where
  "example_port_unnamed = \<lparr>sp_Name = [], sp_Protocol = ''TCP'', sp_Port = 81\<rparr>"

section \<open>Properties of the string helpers and of \<open>ReverseArray\<close>\<close>

lemma length_ReverseArray_loop [simp]: "length (ReverseArray_loop i arr) = length arr"
proof (induction i arr rule: ReverseArray_loop.induct)
  case (1 i arr)
  show ?case
  proof (cases "i < length arr div 2")
    case True
    with 1 show ?thesis by (subst ReverseArray_loop.simps) (simp add: Let_def)
  next
    case False
    then show ?thesis by (subst ReverseArray_loop.simps) simp
  qed
qed

text \<open>After the loop has run from \<open>i\<close>, the positions from \<open>i\<close> up to its mirror image are
  exchanged with their mirror images and the others are as before.\<close>

lemma nth_ReverseArray_loop:
  "k < length arr \<Longrightarrow>
   ReverseArray_loop i arr ! k =
     (if i \<le> k \<and> k < length arr - i then arr ! (length arr - 1 - k) else arr ! k)"
proof (induction i arr arbitrary: k rule: ReverseArray_loop.induct)
  case (1 i arr)
  show ?case
  proof (cases "i < length arr div 2")
    case True
    let ?j = "length arr - i - 1"
    let ?arr' = "arr[i := arr ! ?j, ?j := arr ! i]"
    have step: "ReverseArray_loop i arr = ReverseArray_loop (i + 1) ?arr'"
      using True by (subst ReverseArray_loop.simps) (simp add: Let_def)
    have IH: "ReverseArray_loop (i + 1) ?arr' ! k =
        (if i + 1 \<le> k \<and> k < length ?arr' - (i + 1)
         then ?arr' ! (length ?arr' - 1 - k) else ?arr' ! k)"
      using 1(1)[OF True refl, of k] 1(2) by simp
    show ?thesis
      unfolding step IH using True 1(2)
      by (auto simp: nth_list_update)
  next
    case False
    then have "ReverseArray_loop i arr = arr"
      by (subst ReverseArray_loop.simps) simp
    moreover from False 1(2) have "i \<le> k \<and> k < length arr - i \<Longrightarrow> length arr - 1 - k = k"
      by arith
    ultimately show ?thesis by auto
  qed
qed

lemma ReverseArray_rev: "ReverseArray arr = rev arr"
  by (rule nth_equalityI) (simp_all add: ReverseArray_def nth_ReverseArray_loop rev_nth)

lemma Split_no_sep: "sep \<notin> set s \<Longrightarrow> Split s sep = [s]"
proof -
  assume "sep \<notin> set s"
  then have d: "dropWhile (\<lambda>c. c \<noteq> sep) s = []" by (auto simp: dropWhile_eq_Nil_conv)
  show ?thesis by (subst Split.simps) (simp only: d list.case)
qed

lemma Split_append_sep:
  "sep \<notin> set l \<Longrightarrow> Split (l @ sep # rest) sep = l # Split rest sep"
proof -
  assume a: "sep \<notin> set l"
  then have d: "dropWhile (\<lambda>c. c \<noteq> sep) (l @ sep # rest) = sep # rest"
    by (induction l) auto
  from a have t: "takeWhile (\<lambda>c. c \<noteq> sep) (l @ sep # rest) = l"
    by (induction l) auto
  show ?thesis by (subst Split.simps) (simp only: d t list.case)
qed

lemma HasSuffix_append [simp]: "HasSuffix (s @ suf) suf"
  by (simp add: HasSuffix_def)

lemma TrimSuffix_append [simp]: "TrimSuffix (s @ suf) suf = s"
  by (simp add: TrimSuffix_def)

lemma digit_char_not_dot: "n < 10 \<Longrightarrow> digit_char n \<noteq> CHR ''.''"
proof -
  assume "n < 10"
  then consider "n = 0" | "n = 1" | "n = 2" | "n = 3" | "n = 4" | "n = 5" | "n = 6"
    | "n = 7" | "n = 8" | "n = 9" by atomize_elim arith
  then show ?thesis by cases (simp_all add: digit_char_def)
qed

lemma uitoa_no_dot: "CHR ''.'' \<notin> set (uitoa n)"
proof (induction n rule: uitoa.induct)
  case (1 n)
  show ?case
  proof (cases "n < 10")
    case True
    then show ?thesis using digit_char_not_dot[of n] by (subst uitoa.simps) auto
  next
    case False
    then show ?thesis using 1 digit_char_not_dot[of "n mod 10"]
      by (subst uitoa.simps) auto
  qed
qed

section \<open>Reverse lookup names: \<open>ExtractIP\<close>\<close>

lemma ExtractIP_labels:
  assumes "CHR ''.'' \<notin> set w" "CHR ''.'' \<notin> set x" "CHR ''.'' \<notin> set y" "CHR ''.'' \<notin> set z"
  shows "ExtractIP (z @ ''.'' @ y @ ''.'' @ x @ ''.'' @ w @ ArpaSuffix)
         = (w @ ''.'' @ x @ ''.'' @ y @ ''.'' @ z, True)"
proof -
  have sp: "Split (z @ ''.'' @ y @ ''.'' @ x @ ''.'' @ w) CHR ''.'' = [z, y, x, w]"
    using assms by (simp add: Split_append_sep Split_no_sep)
  have e: "z @ ''.'' @ y @ ''.'' @ x @ ''.'' @ w @ ArpaSuffix
           = (z @ ''.'' @ y @ ''.'' @ x @ ''.'' @ w) @ ArpaSuffix" by simp
  show ?thesis
    unfolding e ExtractIP_def
    by (simp only: HasSuffix_append TrimSuffix_append sp ReverseArray_rev Let_def)
       simp
qed

text \<open>
  Claim C6. For every IPv4 address \<open>a.b.c.d\<close> (four octets, printed in decimal),
  \<open>ExtractIP\<close> applied to \<open>d.c.b.a.in-addr.arpa.\<close> returns \<open>a.b.c.d\<close> and \<open>true\<close>; and for
  every string that does not end with the suffix \<open>.in-addr.arpa.\<close> it returns the empty
  string and \<open>false\<close>.
\<close>

theorem ExtractIP_reverse_roundtrip:
  fixes a b c d :: "8 word"
  shows "ExtractIP (uitoa (unat d) @ ''.'' @ uitoa (unat c) @ ''.'' @ uitoa (unat b) @ ''.''
                    @ uitoa (unat a) @ ''.in-addr.arpa.'')
         = (uitoa (unat a) @ ''.'' @ uitoa (unat b) @ ''.'' @ uitoa (unat c) @ ''.''
            @ uitoa (unat d), True)
       \<and> (\<not> HasSuffix s ArpaSuffix \<longrightarrow> ExtractIP s = ('''', False))"
  using ExtractIP_labels[of "uitoa (unat a)" "uitoa (unat b)" "uitoa (unat c)" "uitoa (unat d)"]
  by (simp add: uitoa_no_dot ExtractIP_def ArpaSuffix_def)

theorem ExtractIP_reverse_roundtrip_witness:
  "\<not> HasSuffix ''5.0.0.10.ip6.arpa.'' ArpaSuffix
   \<and> ExtractIP ''5.0.0.10.ip6.arpa.'' = ('''', False)
   \<and> ExtractIP ''5.0.0.10.in-addr.arpa.'' = (''10.0.0.5'', True)"
  using ExtractIP_reverse_roundtrip[of 5 0 0 10 "''5.0.0.10.ip6.arpa.''"]
  by (simp add: HasSuffix_def ArpaSuffix_def uitoa.simps digit_char_def)

section \<open>The federation grammar: \<open>isFederationQuery\<close>\<close>

lemma domainPath_loop_iff:
  "domainPath_loop i dp path \<longleftrightarrow> (\<forall>k < length dp. dp ! k = path ! (length path - (i + k) - 1))"
proof (induction dp arbitrary: i)
  case Nil
  show ?case by simp
next
  case (Cons d dp)
  have "(\<forall>k < length (d # dp). (d # dp) ! k = path ! (length path - (i + k) - 1))
        \<longleftrightarrow> d = path ! (length path - i - 1)
            \<and> (\<forall>k < length dp. dp ! k = path ! (length path - (Suc i + k) - 1))"
    by (auto simp: less_Suc_eq_0_disj)
  with Cons show ?case by auto
qed

text \<open>On a path of the right length the loop succeeds exactly when the labels behind the
  first four are the domain path read backwards.\<close>

lemma domainPath_loop_drop:
  assumes "length path = 4 + length dp"
  shows "domainPath_loop 0 dp path \<longleftrightarrow> drop 4 path = rev dp"
proof
  assume l: "domainPath_loop 0 dp path"
  show "drop 4 path = rev dp"
  proof (rule nth_equalityI)
    show "length (drop 4 path) = length (rev dp)" using assms by simp
  next
    fix j assume j: "j < length (drop 4 path)"
    with assms have jl: "j < length dp" by simp
    then have "length dp - 1 - j < length dp" by arith
    with l have "dp ! (length dp - 1 - j) = path ! (length path - (length dp - 1 - j) - 1)"
      by (simp add: domainPath_loop_iff)
    moreover have "length path - (length dp - 1 - j) - 1 = 4 + j" using assms jl by arith
    ultimately show "drop 4 path ! j = rev dp ! j"
      using jl assms by (simp add: rev_nth)
  qed
next
  assume d: "drop 4 path = rev dp"
  show "domainPath_loop 0 dp path"
    unfolding domainPath_loop_iff
  proof (intro allI impI)
    fix k assume k: "k < length dp"
    then have "rev dp ! (length dp - 1 - k) = dp ! k" by (simp add: rev_nth)
    moreover have "drop 4 path ! (length dp - 1 - k) = path ! (4 + (length dp - 1 - k))"
      using assms k by simp
    moreover have "4 + (length dp - 1 - k) = length path - (0 + k) - 1" using assms k by arith
    ultimately show "dp ! k = path ! (length path - (0 + k) - 1)" using d by simp
  qed
qed

lemma star_not_1123: "IsDNS1123Label ''*'' \<noteq> []"
  by (simp add: IsDNS1123Label_def dns1123LabelFmt_def is_lower_alnum_def is_lower_def is_digit_def)

lemma star_not_1035: "IsDNS1035Label ''*'' \<noteq> []"
  by (simp add: IsDNS1035Label_def dns1035LabelFmt_def is_lower_alnum_def is_lower_def is_digit_def)

lemma isFederationQuery_config:
  assumes "config kd = Some cfg"
  shows "isFederationQuery kd path =
         Inr (length path = length (domainPath kd) + 4
              \<and> IsDNS1035Label (path ! 0) = [] \<and> IsDNS1123Label (path ! 1) = []
              \<and> IsDNS1123Label (path ! 2) = [] \<and> path ! 3 = ''svc''
              \<and> drop 4 path = rev (domainPath kd)
              \<and> Federations cfg (path ! 2) \<noteq> None)"
proof (cases "length path = 4 + length (domainPath kd)")
  case True
  note dl = domainPath_loop_drop[OF True]
  show ?thesis using True assms
    by (auto simp: isFederationQuery_def dl serviceSubdomain_def split: option.splits)
next
  case False
  then show ?thesis by (auto simp: isFederationQuery_def)
qed

lemma isFederationQuery_star:
  assumes "''*'' \<in> set path" "''*'' \<notin> set (domainPath kd)"
  shows "isFederationQuery kd path = Inr False"
proof (cases "length path = 4 + length (domainPath kd)")
  case False
  then show ?thesis by (simp add: isFederationQuery_def)
next
  case True
  from assms(1) obtain i where i: "i < length path" "path ! i = ''*''"
    by (auto simp: in_set_conv_nth)
  show ?thesis
  proof (cases "i < 4")
    case True
    then consider "i = 0" | "i = 1" | "i = 2" | "i = 3" by atomize_elim arith
    then show ?thesis
      using i star_not_1123 star_not_1035
      by cases (auto simp: isFederationQuery_def serviceSubdomain_def)
  next
    case False
    have "\<not> domainPath_loop 0 (domainPath kd) path"
    proof
      assume "domainPath_loop 0 (domainPath kd) path"
      then have "drop 4 path = rev (domainPath kd)"
        using domainPath_loop_drop[OF True] by simp
      moreover have "drop 4 path ! (i - 4) = ''*''" using False i True by simp
      moreover have "i - 4 < length (drop 4 path)" using False i by simp
      ultimately have "''*'' \<in> set (rev (domainPath kd))"
        by (metis nth_mem)
      with assms(2) show False by simp
    qed
    then show ?thesis by (simp add: isFederationQuery_def)
  qed
qed

lemma domainPath_cluster_local:
  "ReverseArray (Split (TrimRight ''cluster.local'' ''.'') CHR ''.'') = [''local'', ''cluster'']"
  by (simp add: TrimRight_def Split.simps ReverseArray_rev)

lemma domainPath_example_kd [simp]: "domainPath example_kd = [''local'', ''cluster'']"
  by (simp add: example_kd_def NewKubeDNS_def domainPath_cluster_local)

lemma config_example_kd [simp]: "config example_kd = Some example_config"
  by (simp add: example_kd_def)

text \<open>
  Claim C1. With a configuration installed, \<open>isFederationQuery\<close> returns true if and only if
  the path has exactly \<open>len(domainPath)+4\<close> labels, its first label is a valid RFC 1035
  label, its second and third labels are valid RFC 1123 labels, its fourth label is
  \<open>svc\<close>, the labels behind them are the domain path read backwards, and the map of
  federations contains the third label; it returns false as soon as one of the conditions
  fails. A path with a label \<open>*\<close> is never classified as a federation query (the labels of
  the authoritative domain are no wildcards).
\<close>

theorem isFederationQuery_grammar:
  "(config kd = Some cfg \<longrightarrow>
      isFederationQuery kd path =
        Inr (length path = length (domainPath kd) + 4
             \<and> IsDNS1035Label (path ! 0) = []
             \<and> IsDNS1123Label (path ! 1) = []
             \<and> IsDNS1123Label (path ! 2) = []
             \<and> path ! 3 = ''svc''
             \<and> drop 4 path = rev (domainPath kd)
             \<and> Federations cfg (path ! 2) \<noteq> None))
   \<and> (''*'' \<in> set path \<and> ''*'' \<notin> set (domainPath kd) \<longrightarrow>
        isFederationQuery kd path = Inr False)"
  using isFederationQuery_config[of kd cfg path] isFederationQuery_star[of path kd]
  by blast

theorem isFederationQuery_grammar_witness:
  "config example_kd = Some example_config
   \<and> isFederationQuery example_kd [''mysvc'', ''ns'', ''myfed'', ''svc'', ''cluster'', ''local'']
     = Inr True
   \<and> isFederationQuery example_kd [''mysvc'', ''ns'', ''other'', ''svc'', ''cluster'', ''local'']
     = Inr False
   \<and> ''*'' \<in> set [''*'', ''ns'', ''myfed'', ''svc'', ''cluster'', ''local'']
   \<and> ''*'' \<notin> set (domainPath example_kd)
   \<and> isFederationQuery example_kd [''*'', ''ns'', ''myfed'', ''svc'', ''cluster'', ''local'']
     = Inr False"
  using isFederationQuery_grammar[of example_kd example_config
          "[''mysvc'', ''ns'', ''myfed'', ''svc'', ''cluster'', ''local'']"]
        isFederationQuery_grammar[of example_kd example_config
          "[''mysvc'', ''ns'', ''other'', ''svc'', ''cluster'', ''local'']"]
        isFederationQuery_grammar[of example_kd example_config
          "[''*'', ''ns'', ''myfed'', ''svc'', ''cluster'', ''local'']"]
  by (simp add: example_config_def IsDNS1035Label_def IsDNS1123Label_def dns1035LabelFmt_def
        dns1123LabelFmt_def is_lower_alnum_def is_lower_def is_digit_def)

section \<open>Federation redirect, pod records, configuration updates\<close>

lemma getClusterZoneAndRegion_config:
  "config (snd (getClusterZoneAndRegion kd)) = config kd"
  by (auto simp: getClusterZoneAndRegion_def Let_def
           split: if_splits obj.splits option.splits sum.splits prod.splits)

lemma HasSuffix_single: "HasSuffix s [c] \<longleftrightarrow> s \<noteq> [] \<and> last s = c"
proof (cases s rule: rev_cases)
  case Nil
  then show ?thesis by (simp add: HasSuffix_def)
next
  case (snoc ys y)
  then show ?thesis by (auto simp: HasSuffix_def)
qed

lemma Join_snoc: "xs \<noteq> [] \<Longrightarrow> Join (xs @ [p]) sep = Join xs sep @ sep @ p"
  by (induction xs sep rule: Join.induct) auto

lemma Split_Nil: "Split [] sep = [[]]"
  by (subst Split.simps) simp

lemma Split_last_sep: "s \<noteq> [] \<Longrightarrow> last s = sep \<Longrightarrow> [] \<in> set (Split s sep)"
proof (induction s sep rule: Split.induct)
  case (1 s sep)
  from 1(2,3) have "sep \<in> set s" by (metis last_in_set)
  then obtain l rest where s: "s = l @ sep # rest" and l: "sep \<notin> set l"
    by (meson split_list_first)
  have d: "dropWhile (\<lambda>c. c \<noteq> sep) s = sep # rest"
    unfolding s using l by (induction l) auto
  have sp: "Split s sep = l # Split rest sep"
    unfolding s using l by (rule Split_append_sep)
  show ?case
  proof (cases "rest = []")
    case True
    then show ?thesis by (simp add: sp Split_Nil)
  next
    case False
    with 1(3) s have "last rest = sep" by simp
    with 1(1)[OF d False] show ?thesis by (simp add: sp)
  qed
qed

lemma subdomain_valid:
  assumes "IsDNS1123Subdomain d = []"
  shows "d \<noteq> [] \<and> last d \<noteq> CHR ''.''"
proof -
  from assms have all: "list_all dns1123LabelFmt (Split d CHR ''.'')"
    by (auto simp: IsDNS1123Subdomain_def split: if_splits)
  have ne: "\<not> dns1123LabelFmt []" by (simp add: dns1123LabelFmt_def)
  have "d \<noteq> []" using all ne by (auto simp: Split_Nil)
  moreover have "last d \<noteq> CHR ''.''"
  proof
    assume "last d = CHR ''.''"
    with \<open>d \<noteq> []\<close> have "[] \<in> set (Split d CHR ''.'')" by (rule Split_last_sep)
    with all ne show False by (auto simp: list_all_iff)
  qed
  ultimately show ?thesis by simp
qed

lemma take4: 
  assumes "4 \<le> length path"
  shows "take 4 path = [path ! 0, path ! 1, path ! 2, path ! 3]"
proof -
  have "take 4 path = take (Suc (Suc (Suc (Suc 0)))) path" by (simp add: numeral_eq_Suc)
  also have "\<dots> = [path ! 0, path ! 1, path ! 2, path ! 3]"
    using assms
    by (cases path; cases "tl path"; cases "tl (tl path)"; cases "tl (tl (tl path))")
       (auto simp: numeral_eq_Suc)
  finally show ?thesis .
qed

lemma isFederationQuery_True_D:
  assumes "isFederationQuery kd path = Inr True"
  shows "length path = 4 + length (domainPath kd) \<and> path ! 3 = ''svc''
         \<and> (\<exists>cfg d. config kd = Some cfg \<and> Federations cfg (path ! 2) = Some d)"
  using assms
  by (auto simp: isFederationQuery_def serviceSubdomain_def split: if_splits option.splits)

lemma federationRecords_eval:
  assumes fed: "isFederationQuery kd path = Inr True"
    and cfg: "config kd = Some cfg"
    and par: "Federations cfg (path ! 2) = Some parent"
    and zr: "getClusterZoneAndRegion kd = (Inr (zone, region), kd')"
  shows "federationRecords kd (rev path) =
           (if IsDNS1123Subdomain parent = []
            then (Inr [Service_Host_only
                         (Join [path ! 0, path ! 1, path ! 2, ''svc'', zone, region, parent] ''.''
                          @ ''.'')], kd')
            else (Inl (NotAValidDomainName parent (path ! 2)), kd'))"
proof -
  from isFederationQuery_True_D[OF fed] have len: "length path = 4 + length (domainPath kd)"
    and svc: "path ! 3 = ''svc''" by auto
  have t: "take (length path - length (domainPath kd)) path = [path ! 0, path ! 1, path ! 2, ''svc'']"
    using len take4[of path] svc by simp
  have cfg': "config kd' = Some cfg"
    using getClusterZoneAndRegion_config[of kd] zr cfg by simp
  show ?thesis
  proof (cases "IsDNS1123Subdomain parent = []")
    case True
    from subdomain_valid[OF True] have "\<not> HasSuffix
        (Join [path ! 0, path ! 1, path ! 2, ''svc'', zone, region, parent] ''.'') ''.''"
      by (simp add: HasSuffix_single)
    then show ?thesis
      using True by (simp add: federationRecords_def ReverseArray_rev fed t zr cfg' par Let_def)
  next
    case False
    then show ?thesis
      by (simp add: federationRecords_def ReverseArray_rev fed t zr cfg' par Let_def)
  qed
qed

lemma federationRecords_invalid_domain:
  assumes fed: "isFederationQuery kd path = Inr True"
    and cfg: "config kd = Some cfg"
    and par: "Federations cfg (path ! 2) = Some parent"
    and bad: "IsDNS1123Subdomain parent \<noteq> []"
  shows "\<exists>err kd'. federationRecords kd (rev path) = (Inl err, kd')"
proof (cases "getClusterZoneAndRegion kd")
  case (Pair r kd')
  show ?thesis
  proof (cases r)
    case (Inl e)
    with Pair show ?thesis
      by (simp add: federationRecords_def ReverseArray_rev fed Let_def)
  next
    case (Inr zr)
    obtain zone region where "zr = (zone, region)" by (cases zr)
    with Inr Pair have "getClusterZoneAndRegion kd = (Inr (zone, region), kd')" by simp
    from federationRecords_eval[OF fed cfg par this] bad show ?thesis by auto
  qed
qed

lemma recordsForFederation_fallback:
  "\<not> validRecord_loop kd records \<Longrightarrow>
   recordsForFederation kd records p False segs = federationRecords kd (rev segs)"
  by (simp add: recordsForFederation_def ReverseArray_rev)

lemma federationRecords_Inr:
  assumes "fst (federationRecords kd qp) = Inr rs"
  shows "\<exists>name. rs = [Service_Host_only name]"
  using assms
  by (auto simp: federationRecords_def Let_def
           split: sum.splits bool.splits prod.splits option.splits if_splits)

lemma recordsForFederation_Inr:
  assumes "fst (recordsForFederation kd records path exact fs) = Inr rs"
  shows "\<exists>name. rs = [Service_Host_only name]"
  using assms federationRecords_Inr[of kd "ReverseArray fs" rs]
  by (auto simp: recordsForFederation_def Let_def split: if_splits)

lemma GetSkyMsg_fst:
  "fst (GetSkyMsg host port) = \<lparr>Host = host, Port = port, Priority = 10, Weight = 10, Ttl = 30\<rparr>"
  by (simp add: GetSkyMsg_def NewServiceRecord_def Let_def defaultPriority_def
        defaultWeight_def defaultTTL_def)

lemma isFederationQuery_length:
  "length path \<noteq> 4 + length (domainPath kd) \<Longrightarrow> isFederationQuery kd path = Inr False"
  by (simp add: isFederationQuery_def)

lemma Records_pod:
  assumes p: "path = rev (Split (TrimRight name ''.'') CHR ''.'')"
    and len: "length path = length (domainPath kd) + 3"
    and pod: "path ! length (domainPath kd) = ''pod''"
    and star: "''*'' \<notin> set path"
  shows "Records kd name exact =
           (if ParseIP (Replace (last path) CHR ''-'' CHR ''.'') \<noteq> None
            then (Inr [\<lparr>Host = Replace (last path) CHR ''-'' CHR ''.'', Port = 0,
                        Priority = 10, Weight = 10, Ttl = 30\<rparr>], kd)
            else (Inl (InvalidIPAddress (Replace (last path) CHR ''-'' CHR ''.'')), kd))"
proof -
  let ?segments = "Split (TrimRight name ''.'') CHR ''.''"
  have "length ?segments \<noteq> 4 + length (domainPath kd)" using p len by simp
  then have nf: "isFederationQuery kd ?segments = Inr False"
    by (rule isFederationQuery_length)
  have fq: "(if \<not> exact then isFederationQuery kd ?segments else Inr False) = Inr False"
    using nf by simp
  have ipr: "isPodRecord kd path"
    using len pod star by (simp add: isPodRecord_def podSubdomain_def list_ex_iff)
  have ne: "path \<noteq> []" using len by auto
  have lst: "path ! (length path - Suc 0) = last path" using ne by (simp add: last_conv_nth)
  have g: "getRecordsForPath kd path exact =
           (if ParseIP (Replace (last path) CHR ''-'' CHR ''.'') \<noteq> None
            then Inr [\<lparr>Host = Replace (last path) CHR ''-'' CHR ''.'', Port = 0,
                       Priority = 10, Weight = 10, Ttl = 30\<rparr>]
            else Inl (InvalidIPAddress (Replace (last path) CHR ''-'' CHR ''.'')))"
    using ipr by (simp add: getRecordsForPath_def getPodIP_def lst Let_def GetSkyMsg_fst)
  show ?thesis
    unfolding Records_def Let_def fq
    using g p by (simp add: ReverseArray_rev)
qed

lemma updateConfig_loop_None:
  "updateConfig_loop nss acc = None \<longleftrightarrow> (\<exists>ns \<in> set nss. isl (ValidateNameserverIpAndPort ns))"
  by (induction nss arbitrary: acc) (auto split: sum.splits)

lemma updateConfig_rejected:
  assumes "SkyDNSConfig kd = Some sky"
    and "\<exists>ns \<in> set (UpstreamNameservers nextConfig). isl (ValidateNameserverIpAndPort ns)"
  shows "updateConfig resolv nextConfig kd =
           (if Nameservers sky = []
            then kd\<lparr>SkyDNSConfig := Some (sky\<lparr>Nameservers := loadDefaultNameserver resolv\<rparr>)\<rparr>
            else kd)"
proof -
  from assms(2) have "updateConfig_loop (UpstreamNameservers nextConfig) [] = None"
    by (simp add: updateConfig_loop_None)
  with assms(1) show ?thesis by (simp add: updateConfig_def)
qed

lemma Validate_ip: "ParseIP s = Some ip \<Longrightarrow> ValidateNameserverIpAndPort s = Inr (IP_String ip, ''53'')"
  by (simp add: ValidateNameserverIpAndPort_def)

lemma Validate_hostport:
  assumes "ParseIP s = None"
  shows "ValidateNameserverIpAndPort s = Inr (host, port) \<longleftrightarrow>
           SplitHostPort s = Inr (host, port) \<and> ParseIP host \<noteq> None
           \<and> (\<exists>p. Atoi port = Some p \<and> 1 \<le> p \<and> p \<le> 65535)"
  using assms
  by (auto simp: ValidateNameserverIpAndPort_def split: sum.splits option.splits if_splits)

lemma Validate_error:
  assumes "ParseIP s = None"
  shows "isl (ValidateNameserverIpAndPort s) \<longleftrightarrow>
           \<not> (\<exists>host port. SplitHostPort s = Inr (host, port) \<and> ParseIP host \<noteq> None
                \<and> (\<exists>p. Atoi port = Some p \<and> 1 \<le> p \<and> p \<le> 65535))"
  using assms
  by (auto simp: ValidateNameserverIpAndPort_def split: sum.splits option.splits if_splits)

lemma label_defs:
  "IsDNS1035Label ''mysvc'' = []" "IsDNS1123Label ''ns'' = []" "IsDNS1123Label ''myfed'' = []"
  by (simp_all add: IsDNS1035Label_def IsDNS1123Label_def dns1035LabelFmt_def
        dns1123LabelFmt_def is_lower_alnum_def is_lower_def is_digit_def)

lemma isFederationQuery_example: "isFederationQuery example_kd example_query = Inr True"
  by (simp add: isFederationQuery_config[of example_kd example_config] example_query_def
        label_defs example_config_def)

lemma domainPath_example_kd_bad [simp]: "domainPath example_kd_bad = [''local'', ''cluster'']"
  by (simp add: example_kd_bad_def)

lemma config_example_kd_bad [simp]:
  "config example_kd_bad = Some (example_config\<lparr>Federations := [''myfed'' \<mapsto> ''example..com'']\<rparr>)"
  by (simp add: example_kd_bad_def)

lemma isFederationQuery_example_bad: "isFederationQuery example_kd_bad example_query = Inr True"
  by (simp add: isFederationQuery_config[OF config_example_kd_bad] example_query_def label_defs)

lemma zone_example:
  "getClusterZoneAndRegion example_kd =
     (Inr (''z1'', ''r1''), example_kd\<lparr>nodesStore := [NodeObj example_node]\<rparr>)"
  by (simp add: getClusterZoneAndRegion_def example_kd_def NewKubeDNS_def example_node_def
        LabelZoneFailureDomain_def LabelZoneRegion_def)

lemma Split_example_com: "Split ''example.com'' CHR ''.'' = [''example'', ''com'']"
  by (simp add: Split.simps)

lemma subdomain_example_com: "IsDNS1123Subdomain ''example.com'' = []"
  by (simp add: IsDNS1123Subdomain_def Split_example_com dns1123LabelFmt_def is_lower_alnum_def
        is_lower_def is_digit_def)

lemma Split_example_bad: "Split ''example..com'' CHR ''.'' = [''example'', [], ''com'']"
  by (simp add: Split.simps)

lemma subdomain_example_bad: "IsDNS1123Subdomain ''example..com'' \<noteq> []"
  by (simp add: IsDNS1123Subdomain_def Split_example_bad dns1123LabelFmt_def)

lemma federationRecords_zone_error:
  assumes "isFederationQuery kd path = Inr True"
    and "getClusterZoneAndRegion kd = (Inl err, kd')"
  shows "federationRecords kd (rev path) = (Inl (FailedToObtainZoneAndRegion err), kd')"
  using assms by (simp add: federationRecords_def ReverseArray_rev Let_def)

lemma config_example_kd_nonodes [simp]: "config example_kd_nonodes = Some example_config"
  by (simp add: example_kd_nonodes_def)

lemma domainPath_example_kd_nonodes [simp]:
  "domainPath example_kd_nonodes = [''local'', ''cluster'']"
  by (simp add: example_kd_nonodes_def)

lemma isFederationQuery_example_nonodes:
  "isFederationQuery example_kd_nonodes example_query = Inr True"
  by (simp add: isFederationQuery_config[OF config_example_kd_nonodes] example_query_def
        label_defs example_config_def)

lemma zone_example_nonodes:
  "getClusterZoneAndRegion example_kd_nonodes
   = (Inl FailedToRetrieveClusterNodes, example_kd_nonodes)"
  by (simp add: getClusterZoneAndRegion_def example_kd_nonodes_def example_kd_def
        NewKubeDNS_def)

text \<open>
  Claim C2, as stated, fails: the query classifies as a federation query, no valid local
  record exists and the parent domain \<open>example.com\<close> of the federation is valid, but the
  cluster lists no node, so the zone and the region cannot be obtained and the answer is
  an error, not a CNAME payload.
\<close>

theorem federationRecords_redirect_counterexample:
  "isFederationQuery example_kd_nonodes example_query = Inr True
   \<and> \<not> validRecord_loop example_kd_nonodes []
   \<and> Federations example_config (example_query ! 2) = Some ''example.com''
   \<and> IsDNS1123Subdomain ''example.com'' = []
   \<and> recordsForFederation example_kd_nonodes []
        [''local'', ''cluster'', ''svc'', ''ns'', ''mysvc''] False example_query
      = (Inl (FailedToObtainZoneAndRegion FailedToRetrieveClusterNodes), example_kd_nonodes)
   \<and> federationRecords example_kd_nonodes (rev example_query)
      = (Inl (FailedToObtainZoneAndRegion FailedToRetrieveClusterNodes), example_kd_nonodes)"
proof -
  have f: "federationRecords example_kd_nonodes (rev example_query)
      = (Inl (FailedToObtainZoneAndRegion FailedToRetrieveClusterNodes), example_kd_nonodes)"
    by (rule federationRecords_zone_error[OF isFederationQuery_example_nonodes
          zone_example_nonodes])
  have v: "\<not> validRecord_loop example_kd_nonodes []" by simp
  have r: "recordsForFederation example_kd_nonodes []
        [''local'', ''cluster'', ''svc'', ''ns'', ''mysvc''] False example_query
      = (Inl (FailedToObtainZoneAndRegion FailedToRetrieveClusterNodes), example_kd_nonodes)"
    using recordsForFederation_fallback[OF v] f by simp
  have p: "Federations example_config (example_query ! 2) = Some ''example.com''"
    by (simp add: example_query_def example_config_def)
  from isFederationQuery_example_nonodes v p subdomain_example_com r f show ?thesis
    by blast
qed

text \<open>
  Claim C2, amended. For a non-exact query whose name classifies as a federation query
  (the path is given in the order of the name: service, namespace, federation, \<open>svc\<close>,
  domain) and for which the local lookup gave no valid record, \<open>recordsForFederation\<close>
  answers with \<open>federationRecords\<close>. When the zone and the region of the cluster are
  obtained and the parent domain of the federation passes the RFC 1123 subdomain check,
  the answer is exactly one payload whose host is the service, namespace, federation and
  \<open>svc\<close> labels, the zone, the region and the parent domain joined with dots, with a
  trailing dot, and whose other fields are zero. When the zone and the region cannot be
  obtained, or when the parent domain fails the check, the answer is an error instead of
  a record.
\<close>

theorem federationRecords_cname_or_error:
  "isFederationQuery kd path = Inr True \<and> config kd = Some cfg
   \<and> Federations cfg (path ! 2) = Some parent \<longrightarrow>
     (\<not> validRecord_loop kd records \<longrightarrow>
        recordsForFederation kd records p False path = federationRecords kd (rev path))
     \<and> (getClusterZoneAndRegion kd = (Inr (zone, region), kd')
          \<and> IsDNS1123Subdomain parent = [] \<longrightarrow>
        federationRecords kd (rev path) =
          (Inr [\<lparr>Host = Join [path ! 0, path ! 1, path ! 2, ''svc'', zone, region, parent] ''.''
                        @ ''.'',
                 Port = 0, Priority = 0, Weight = 0, Ttl = 0\<rparr>], kd'))
     \<and> (getClusterZoneAndRegion kd = (Inl zerr, kd') \<longrightarrow>
          federationRecords kd (rev path) = (Inl (FailedToObtainZoneAndRegion zerr), kd'))
     \<and> (getClusterZoneAndRegion kd = (Inr (zone, region), kd')
          \<and> IsDNS1123Subdomain parent \<noteq> [] \<longrightarrow>
          federationRecords kd (rev path) = (Inl (NotAValidDomainName parent (path ! 2)), kd'))
     \<and> (IsDNS1123Subdomain parent \<noteq> [] \<longrightarrow>
          (\<exists>err kd''. federationRecords kd (rev path) = (Inl err, kd'')))"
proof (intro impI conjI)
  assume a: "isFederationQuery kd path = Inr True \<and> config kd = Some cfg
             \<and> Federations cfg (path ! 2) = Some parent"
  assume "\<not> validRecord_loop kd records"
  then show "recordsForFederation kd records p False path = federationRecords kd (rev path)"
    by (rule recordsForFederation_fallback)
next
  assume a: "isFederationQuery kd path = Inr True \<and> config kd = Some cfg
             \<and> Federations cfg (path ! 2) = Some parent"
  assume b: "getClusterZoneAndRegion kd = (Inr (zone, region), kd')
             \<and> IsDNS1123Subdomain parent = []"
  from a b federationRecords_eval[of kd path cfg parent zone region kd']
  show "federationRecords kd (rev path) =
          (Inr [\<lparr>Host = Join [path ! 0, path ! 1, path ! 2, ''svc'', zone, region, parent] ''.''
                        @ ''.'',
                 Port = 0, Priority = 0, Weight = 0, Ttl = 0\<rparr>], kd')"
    by (simp add: Service_Host_only_def)
next
  assume a: "isFederationQuery kd path = Inr True \<and> config kd = Some cfg
             \<and> Federations cfg (path ! 2) = Some parent"
  assume b: "getClusterZoneAndRegion kd = (Inl zerr, kd')"
  from a b show "federationRecords kd (rev path) = (Inl (FailedToObtainZoneAndRegion zerr), kd')"
    using federationRecords_zone_error[of kd path zerr kd'] by blast
next
  assume a: "isFederationQuery kd path = Inr True \<and> config kd = Some cfg
             \<and> Federations cfg (path ! 2) = Some parent"
  assume b: "getClusterZoneAndRegion kd = (Inr (zone, region), kd')
             \<and> IsDNS1123Subdomain parent \<noteq> []"
  from a b federationRecords_eval[of kd path cfg parent zone region kd']
  show "federationRecords kd (rev path) = (Inl (NotAValidDomainName parent (path ! 2)), kd')"
    by simp
next
  assume a: "isFederationQuery kd path = Inr True \<and> config kd = Some cfg
             \<and> Federations cfg (path ! 2) = Some parent"
  assume b: "IsDNS1123Subdomain parent \<noteq> []"
  from a b federationRecords_invalid_domain[of kd path cfg parent]
  show "\<exists>err kd''. federationRecords kd (rev path) = (Inl err, kd'')" by blast
qed

lemma zone_example_bad:
  "getClusterZoneAndRegion example_kd_bad =
     (Inr (''z1'', ''r1''), example_kd_bad\<lparr>nodesStore := [NodeObj example_node]\<rparr>)"
  by (simp add: getClusterZoneAndRegion_def example_kd_bad_def example_kd_def NewKubeDNS_def
        example_node_def LabelZoneFailureDomain_def LabelZoneRegion_def)

theorem federationRecords_cname_or_error_witness:
  "isFederationQuery example_kd example_query = Inr True
   \<and> config example_kd = Some example_config
   \<and> Federations example_config (example_query ! 2) = Some ''example.com''
   \<and> \<not> validRecord_loop example_kd []
   \<and> getClusterZoneAndRegion example_kd =
       (Inr (''z1'', ''r1''), example_kd\<lparr>nodesStore := [NodeObj example_node]\<rparr>)
   \<and> IsDNS1123Subdomain ''example.com'' = []
   \<and> recordsForFederation example_kd [] [''local'', ''cluster'', ''svc'', ''ns'', ''mysvc''] False
         example_query =
       (Inr [\<lparr>Host = ''mysvc.ns.myfed.svc.z1.r1.example.com.'',
              Port = 0, Priority = 0, Weight = 0, Ttl = 0\<rparr>],
        example_kd\<lparr>nodesStore := [NodeObj example_node]\<rparr>)
   \<and> isFederationQuery example_kd_nonodes example_query = Inr True
   \<and> getClusterZoneAndRegion example_kd_nonodes
       = (Inl FailedToRetrieveClusterNodes, example_kd_nonodes)
   \<and> federationRecords example_kd_nonodes (rev example_query)
       = (Inl (FailedToObtainZoneAndRegion FailedToRetrieveClusterNodes), example_kd_nonodes)
   \<and> isFederationQuery example_kd_bad example_query = Inr True
   \<and> IsDNS1123Subdomain ''example..com'' \<noteq> []
   \<and> getClusterZoneAndRegion example_kd_bad =
       (Inr (''z1'', ''r1''), example_kd_bad\<lparr>nodesStore := [NodeObj example_node]\<rparr>)
   \<and> federationRecords example_kd_bad (rev example_query)
       = (Inl (NotAValidDomainName ''example..com'' ''myfed''),
          example_kd_bad\<lparr>nodesStore := [NodeObj example_node]\<rparr>)"
  using federationRecords_cname_or_error[of example_kd example_query example_config
          "''example.com''" "[]" "[''local'', ''cluster'', ''svc'', ''ns'', ''mysvc'']"
          "''z1''" "''r1''" "example_kd\<lparr>nodesStore := [NodeObj example_node]\<rparr>"
          FailedToRetrieveClusterNodes]
        federationRecords_cname_or_error[of example_kd_nonodes example_query example_config
          "''example.com''" "[]" "[]" "''z1''" "''r1''" example_kd_nonodes
          FailedToRetrieveClusterNodes]
        federationRecords_cname_or_error[of example_kd_bad example_query
          "example_config\<lparr>Federations := [''myfed'' \<mapsto> ''example..com'']\<rparr>"
          "''example..com''" "[]" "[]" "''z1''" "''r1''"
          "example_kd_bad\<lparr>nodesStore := [NodeObj example_node]\<rparr>"
          FailedToRetrieveClusterNodes]
        isFederationQuery_example isFederationQuery_example_bad zone_example zone_example_bad
        isFederationQuery_example_nonodes zone_example_nonodes
        subdomain_example_com subdomain_example_bad
  by (simp add: example_query_def example_config_def)


text \<open>
  Claim C10. Every payload returned on the federation path, the CNAME of the local service
  as well as the redirect CNAME of the fallback, is built with the host alone: port,
  priority, weight and TTL are 0, whereas every record made by \<open>GetSkyMsg\<close> carries
  priority 10, weight 10 and TTL 30.
\<close>

theorem federation_cname_host_only:
  "(fst (recordsForFederation kd records path exact federationSegments) = Inr rs \<longrightarrow>
      (\<exists>name. rs = [\<lparr>Host = name, Port = 0, Priority = 0, Weight = 0, Ttl = 0\<rparr>]))
   \<and> (fst (federationRecords kd queryPath) = Inr rs' \<longrightarrow>
      (\<exists>name. rs' = [\<lparr>Host = name, Port = 0, Priority = 0, Weight = 0, Ttl = 0\<rparr>]))
   \<and> fst (GetSkyMsg host port)
       = \<lparr>Host = host, Port = port, Priority = 10, Weight = 10, Ttl = 30\<rparr>"
  using recordsForFederation_Inr[of kd records path exact federationSegments rs]
        federationRecords_Inr[of kd queryPath rs'] GetSkyMsg_fst[of host port]
  by (simp add: Service_Host_only_def)

lemma local_cname_example:
  "recordsForFederation example_kd
     [\<lparr>Host = ''10.1.2.3'', Port = 0, Priority = 10, Weight = 10, Ttl = 30\<rparr>]
     [''local'', ''cluster'', ''svc'', ''ns'', ''mysvc''] False example_query
   = (Inr [\<lparr>Host = ''mysvc.ns.svc.cluster.local.'', Port = 0, Priority = 0, Weight = 0,
            Ttl = 0\<rparr>], example_kd)"
  by (simp add: recordsForFederation_def isHeadlessServiceRecord_def example_kd_def
        NewKubeDNS_def ReverseArray_rev HasSuffix_def Service_Host_only_def)

lemma redirect_example:
  "federationRecords example_kd (rev example_query)
   = (Inr [\<lparr>Host = ''mysvc.ns.myfed.svc.z1.r1.example.com.'', Port = 0, Priority = 0,
            Weight = 0, Ttl = 0\<rparr>], example_kd\<lparr>nodesStore := [NodeObj example_node]\<rparr>)"
  using federationRecords_eval[OF isFederationQuery_example config_example_kd _ zone_example,
          of "''example.com''"]
  by (simp add: example_config_def example_query_def subdomain_example_com
        Service_Host_only_def)

theorem federation_cname_host_only_witness:
  "fst (recordsForFederation example_kd
          [\<lparr>Host = ''10.1.2.3'', Port = 0, Priority = 10, Weight = 10, Ttl = 30\<rparr>]
          [''local'', ''cluster'', ''svc'', ''ns'', ''mysvc''] False example_query)
     = Inr [\<lparr>Host = ''mysvc.ns.svc.cluster.local.'', Port = 0, Priority = 0, Weight = 0,
             Ttl = 0\<rparr>]
   \<and> fst (federationRecords example_kd (rev example_query))
     = Inr [\<lparr>Host = ''mysvc.ns.myfed.svc.z1.r1.example.com.'', Port = 0, Priority = 0,
             Weight = 0, Ttl = 0\<rparr>]
   \<and> (\<exists>name. [\<lparr>Host = ''mysvc.ns.svc.cluster.local.'', Port = 0, Priority = 0, Weight = 0,
                  Ttl = 0\<rparr>]
              = [\<lparr>Host = name, Port = 0, Priority = 0, Weight = 0, Ttl = 0\<rparr>])
   \<and> (\<exists>name. [\<lparr>Host = ''mysvc.ns.myfed.svc.z1.r1.example.com.'', Port = 0, Priority = 0,
                  Weight = 0, Ttl = 0\<rparr>]
              = [\<lparr>Host = name, Port = 0, Priority = 0, Weight = 0, Ttl = 0\<rparr>])"
  using federation_cname_host_only[of example_kd
          "[\<lparr>Host = ''10.1.2.3'', Port = 0, Priority = 10, Weight = 10, Ttl = 30\<rparr>]"
          "[''local'', ''cluster'', ''svc'', ''ns'', ''mysvc'']" False example_query
          "[\<lparr>Host = ''mysvc.ns.svc.cluster.local.'', Port = 0, Priority = 0, Weight = 0,
              Ttl = 0\<rparr>]"
          "rev example_query"
          "[\<lparr>Host = ''mysvc.ns.myfed.svc.z1.r1.example.com.'', Port = 0, Priority = 0,
              Weight = 0, Ttl = 0\<rparr>]"]
        local_cname_example redirect_example
  by simp

text \<open>
  Claim C7. For a query whose path (the labels of the name, reversed) has
  \<open>len(domainPath)+3\<close> labels, has \<open>pod\<close> right behind the domain labels and has no label
  \<open>*\<close>: when the last label with its dashes replaced by dots parses as an IP address,
  \<open>Records\<close> returns exactly one payload with that address as host and port 0; otherwise
  the query fails with an error and no record. Neither result depends on the tree cache.
\<close>

theorem Records_pod_record:
  "path = rev (Split (TrimRight name ''.'') CHR ''.'')
   \<and> length path = length (domainPath kd) + 3
   \<and> path ! length (domainPath kd) = ''pod''
   \<and> ''*'' \<notin> set path \<longrightarrow>
     Records kd name exact =
       (if ParseIP (Replace (last path) CHR ''-'' CHR ''.'') \<noteq> None
        then (Inr [\<lparr>Host = Replace (last path) CHR ''-'' CHR ''.'', Port = 0,
                    Priority = 10, Weight = 10, Ttl = 30\<rparr>], kd)
        else (Inl (InvalidIPAddress (Replace (last path) CHR ''-'' CHR ''.'')), kd))
     \<and> fst (Records (kd\<lparr>cache := c\<rparr>) name exact) = fst (Records kd name exact)"
proof
  assume a: "path = rev (Split (TrimRight name ''.'') CHR ''.'')
   \<and> length path = length (domainPath kd) + 3
   \<and> path ! length (domainPath kd) = ''pod''
   \<and> ''*'' \<notin> set path"
  then have 1: "Records kd name exact =
       (if ParseIP (Replace (last path) CHR ''-'' CHR ''.'') \<noteq> None
        then (Inr [\<lparr>Host = Replace (last path) CHR ''-'' CHR ''.'', Port = 0,
                    Priority = 10, Weight = 10, Ttl = 30\<rparr>], kd)
        else (Inl (InvalidIPAddress (Replace (last path) CHR ''-'' CHR ''.'')), kd))"
    using Records_pod[of path name kd exact] by blast
  from a have h1: "path = rev (Split (TrimRight name ''.'') CHR ''.'')"
    and h2: "length path = length (domainPath (kd\<lparr>cache := c\<rparr>)) + 3"
    and h3: "path ! length (domainPath (kd\<lparr>cache := c\<rparr>)) = ''pod''"
    and h4: "''*'' \<notin> set path" by auto
  have 2: "Records (kd\<lparr>cache := c\<rparr>) name exact =
       (if ParseIP (Replace (last path) CHR ''-'' CHR ''.'') \<noteq> None
        then (Inr [\<lparr>Host = Replace (last path) CHR ''-'' CHR ''.'', Port = 0,
                    Priority = 10, Weight = 10, Ttl = 30\<rparr>], kd\<lparr>cache := c\<rparr>)
        else (Inl (InvalidIPAddress (Replace (last path) CHR ''-'' CHR ''.'')), kd\<lparr>cache := c\<rparr>))"
    by (rule Records_pod[OF h1 h2 h3 h4])
  from 1 2 show "Records kd name exact =
       (if ParseIP (Replace (last path) CHR ''-'' CHR ''.'') \<noteq> None
        then (Inr [\<lparr>Host = Replace (last path) CHR ''-'' CHR ''.'', Port = 0,
                    Priority = 10, Weight = 10, Ttl = 30\<rparr>], kd)
        else (Inl (InvalidIPAddress (Replace (last path) CHR ''-'' CHR ''.'')), kd))
     \<and> fst (Records (kd\<lparr>cache := c\<rparr>) name exact) = fst (Records kd name exact)"
    by simp
qed

lemma parseIPv4_unfold:
  "parseIPv4 s =
     (case parseIPv4_loop (Suc (Suc (Suc (Suc 0)))) 0 s of
        Some [a, b, c, d] \<Rightarrow> Some (IPv4 a b c d)
      | _ \<Rightarrow> None)"
  by (simp add: parseIPv4_def numeral_eq_Suc)

lemma dtoi_examples:
  "dtoi ''10.0.0.1'' = (10, 2, True)" "dtoi ''0.0.1'' = (0, 1, True)" "dtoi ''0.1'' = (0, 1, True)"
  "dtoi ''1'' = (1, 1, True)" "dtoi ''10.0.0.256'' = (10, 2, True)" "dtoi ''0.0.256'' = (0, 1, True)"
  "dtoi ''0.256'' = (0, 1, True)" "dtoi ''256'' = (256, 3, True)"
  by (simp_all add: dtoi_def big_def is_digit_def digit_val_def)

lemma ParseIP_10_0_0_1: "ParseIP ''10.0.0.1'' = Some (IPv4 10 0 0 1)"
  by (simp add: ParseIP_def parseIPv4_unfold dtoi_examples)

lemma ParseIP_10_0_0_256: "ParseIP ''10.0.0.256'' = None"
  by (simp add: ParseIP_def parseIPv4_unfold dtoi_examples)

lemma Split_pod1:
  "Split (TrimRight ''10-0-0-1.default.pod.cluster.local.'' ''.'') CHR ''.''
   = [''10-0-0-1'', ''default'', ''pod'', ''cluster'', ''local'']"
  by (simp add: TrimRight_def Split.simps)

lemma Split_pod2:
  "Split (TrimRight ''10-0-0-256.default.pod.cluster.local'' ''.'') CHR ''.''
   = [''10-0-0-256'', ''default'', ''pod'', ''cluster'', ''local'']"
  by (simp add: TrimRight_def Split.simps)

theorem Records_pod_record_witness:
  "Records example_kd ''10-0-0-1.default.pod.cluster.local.'' False
     = (Inr [\<lparr>Host = ''10.0.0.1'', Port = 0, Priority = 10, Weight = 10, Ttl = 30\<rparr>], example_kd)
   \<and> Records example_kd ''10-0-0-256.default.pod.cluster.local'' True
     = (Inl (InvalidIPAddress ''10.0.0.256''), example_kd)
   \<and> [''local'', ''cluster'', ''pod'', ''default'', ''10-0-0-1'']
     = rev (Split (TrimRight ''10-0-0-1.default.pod.cluster.local.'' ''.'') CHR ''.'')
   \<and> length [''local'', ''cluster'', ''pod'', ''default'', ''10-0-0-1'']
     = length (domainPath example_kd) + 3
   \<and> [''local'', ''cluster'', ''pod'', ''default'', ''10-0-0-1''] ! length (domainPath example_kd)
     = ''pod''
   \<and> ''*'' \<notin> set [''local'', ''cluster'', ''pod'', ''default'', ''10-0-0-1'']"
  using Records_pod_record[of "[''local'', ''cluster'', ''pod'', ''default'', ''10-0-0-1'']"
          "''10-0-0-1.default.pod.cluster.local.''" example_kd False NewTreeCache]
        Records_pod_record[of "[''local'', ''cluster'', ''pod'', ''default'', ''10-0-0-256'']"
          "''10-0-0-256.default.pod.cluster.local''" example_kd True NewTreeCache]
  by (simp add: Split_pod1 Split_pod2 Replace_def ParseIP_10_0_0_1 ParseIP_10_0_0_256)


text \<open>
  Claim C9. With a SkyDNS server configuration present, an update that has an upstream
  nameserver failing validation is rejected as a whole: the stored configuration, with
  its map of federations, stays as it was, and nothing else of the state changes except
  that the nameservers of the resolver configuration of the host are installed when no
  nameserver was installed before.
\<close>

theorem updateConfig_rejects_invalid_nameserver:
  "SkyDNSConfig kd = Some sky
   \<and> (\<exists>ns \<in> set (UpstreamNameservers nextConfig). isl (ValidateNameserverIpAndPort ns)) \<longrightarrow>
     config (updateConfig resolv nextConfig kd) = config kd
     \<and> updateConfig resolv nextConfig kd
         = kd\<lparr>SkyDNSConfig :=
                 Some (if Nameservers sky = []
                       then sky\<lparr>Nameservers := loadDefaultNameserver resolv\<rparr> else sky)\<rparr>"
proof
  assume a: "SkyDNSConfig kd = Some sky
   \<and> (\<exists>ns \<in> set (UpstreamNameservers nextConfig). isl (ValidateNameserverIpAndPort ns))"
  then have "updateConfig resolv nextConfig kd =
           (if Nameservers sky = []
            then kd\<lparr>SkyDNSConfig := Some (sky\<lparr>Nameservers := loadDefaultNameserver resolv\<rparr>)\<rparr>
            else kd)"
    using updateConfig_rejected[of kd sky nextConfig resolv] by blast
  with a show "config (updateConfig resolv nextConfig kd) = config kd
     \<and> updateConfig resolv nextConfig kd
         = kd\<lparr>SkyDNSConfig :=
                 Some (if Nameservers sky = []
                       then sky\<lparr>Nameservers := loadDefaultNameserver resolv\<rparr> else sky)\<rparr>"
    by simp
qed

lemma ParseIP_not_an_ip: "ParseIP ''not-an-ip'' = None"
  by (simp add: ParseIP_def)

lemma Validate_not_an_ip: "isl (ValidateNameserverIpAndPort ''not-an-ip'')"
  by (simp add: ValidateNameserverIpAndPort_def ParseIP_not_an_ip SplitHostPort_def
        LastIndexByte_def)

theorem updateConfig_rejects_invalid_nameserver_witness:
  "SkyDNSConfig example_kd_sky = Some \<lparr>Nameservers = []\<rparr>
   \<and> isl (ValidateNameserverIpAndPort ''not-an-ip'')
   \<and> ''not-an-ip'' \<in> set (UpstreamNameservers example_next_config)
   \<and> config (updateConfig example_resolv example_next_config example_kd_sky)
       = Some example_config
   \<and> SkyDNSConfig (updateConfig example_resolv example_next_config example_kd_sky)
       = Some \<lparr>Nameservers = [''8.8.8.8:53'']\<rparr>
   \<and> SkyDNSConfig example_kd_sky2 = Some \<lparr>Nameservers = [''9.9.9.9:53'']\<rparr>
   \<and> updateConfig example_resolv example_next_config example_kd_sky2 = example_kd_sky2"
  using updateConfig_rejects_invalid_nameserver[of example_kd_sky "\<lparr>Nameservers = []\<rparr>"
          example_next_config example_resolv]
        updateConfig_rejects_invalid_nameserver[of example_kd_sky2
          "\<lparr>Nameservers = [''9.9.9.9:53'']\<rparr>" example_next_config example_resolv]
        Validate_not_an_ip
  by (simp add: example_kd_sky_def example_kd_sky2_def example_next_config_def
        example_resolv_def loadDefaultNameserver_def JoinHostPort_def IndexByte_def)

lemma xtoi_0: "xtoi ''0'' = (0, 1, True)"
  by (simp add: xtoi_def hex_val_def big_def)

lemma parseIPv6_loop_0: "parseIPv6_loop [] 0 ''0'' = Some ([0, 0], 0, [])"
  by (simp add: parseIPv6_loop.simps parseIPv6_round_def xtoi_0)

lemma ParseIP_zero: "ParseIP ''::0'' = Some [0, 0, 0, 0, 0, 0, 0, 0, 0, 0, 0, 0, 0, 0, 0, 0]"
  by (simp add: ParseIP_def parseIPv6_def parseIPv6_loop_0 Let_def numeral_eq_Suc)

lemma zero_run_end_zero: "zero_run_end [0, 0, 0, 0, 0, 0, 0, 0, 0, 0, 0, 0, 0, 0, 0, 0] 0 = 16"
  by (simp add: zero_run_end.simps)

lemma longest_zero_run_zero:
  "longest_zero_run [0, 0, 0, 0, 0, 0, 0, 0, 0, 0, 0, 0, 0, 0, 0, 0] 0 (- 1, - 1) = (0, 16)"
  by (simp add: longest_zero_run.simps zero_run_end_zero)

lemma IP_String_zero: "IP_String [0, 0, 0, 0, 0, 0, 0, 0, 0, 0, 0, 0, 0, 0, 0, 0] = ''::''"
  by (simp add: IP_String_def To4_def longest_zero_run_zero print_groups.simps)

lemma Validate_zero: "ValidateNameserverIpAndPort ''::0'' = Inr (''::'', ''53'')"
  by (simp add: ValidateNameserverIpAndPort_def ParseIP_zero IP_String_zero)

text \<open>
  Claim C8, as stated, fails: \<open>::0\<close> parses as an IP address, and the function returns
  the canonical text \<open>::\<close> of the parsed address, not the input.
\<close>

theorem ValidateNameserverIpAndPort_counterexample:
  "ParseIP ''::0'' \<noteq> None
   \<and> ValidateNameserverIpAndPort ''::0'' = Inr (''::'', ''53'')
   \<and> ValidateNameserverIpAndPort ''::0'' \<noteq> Inr (''::0'', ''53'')"
  by (simp add: Validate_zero ParseIP_zero)

text \<open>
  Claim C8, amended. If \<open>s\<close> parses as an IP address, \<open>ValidateNameserverIpAndPort\<close>
  returns the text form of the parsed address (\<open>IP.String\<close>) and the port \<open>53\<close>.
  Otherwise it succeeds exactly when \<open>s\<close> splits into a host and a port, the host parses
  as an IP address and the port is an integer from 1 to 65535, and then returns that host
  and port; in every other case it returns an error.
\<close>

theorem ValidateNameserverIpAndPort_result:
  "(ParseIP s = Some ip \<longrightarrow> ValidateNameserverIpAndPort s = Inr (IP_String ip, ''53''))
   \<and> (ParseIP s = None \<longrightarrow>
        (ValidateNameserverIpAndPort s = Inr (host, port) \<longleftrightarrow>
           SplitHostPort s = Inr (host, port) \<and> ParseIP host \<noteq> None
           \<and> (\<exists>p. Atoi port = Some p \<and> 1 \<le> p \<and> p \<le> 65535))
        \<and> (isl (ValidateNameserverIpAndPort s) \<longleftrightarrow>
             \<not> (\<exists>h q. SplitHostPort s = Inr (h, q) \<and> ParseIP h \<noteq> None
                    \<and> (\<exists>p. Atoi q = Some p \<and> 1 \<le> p \<and> p \<le> 65535))))"
  using Validate_ip[of s ip] Validate_hostport[of s host port] Validate_error[of s]
  by blast

lemma dtoi_examples2:
  "dtoi ''1.2.3.4:53'' = (1, 1, True)" "dtoi ''2.3.4:53'' = (2, 1, True)"
  "dtoi ''3.4:53'' = (3, 1, True)" "dtoi ''4:53'' = (4, 1, True)"
  "dtoi ''1.2.3.4:0'' = (1, 1, True)" "dtoi ''2.3.4:0'' = (2, 1, True)"
  "dtoi ''3.4:0'' = (3, 1, True)" "dtoi ''4:0'' = (4, 1, True)"
  "dtoi ''1.2.3.4'' = (1, 1, True)" "dtoi ''2.3.4'' = (2, 1, True)"
  "dtoi ''3.4'' = (3, 1, True)" "dtoi ''4'' = (4, 1, True)"
  by (simp_all add: dtoi_def big_def is_digit_def digit_val_def)

lemma ParseIP_hostport: "ParseIP ''1.2.3.4:53'' = None" "ParseIP ''1.2.3.4:0'' = None"
  by (simp_all add: ParseIP_def parseIPv4_unfold dtoi_examples2)

lemma ParseIP_1_2_3_4: "ParseIP ''1.2.3.4'' = Some (IPv4 1 2 3 4)"
  by (simp add: ParseIP_def parseIPv4_unfold dtoi_examples2)

lemma SplitHostPort_examples:
  "SplitHostPort ''1.2.3.4:53'' = Inr (''1.2.3.4'', ''53'')"
  "SplitHostPort ''1.2.3.4:0'' = Inr (''1.2.3.4'', ''0'')"
  by (simp_all add: SplitHostPort_def SplitHostPort_tail_def LastIndexByte_def IndexByte_def)

lemma Atoi_examples: "Atoi ''53'' = Some 53" "Atoi ''0'' = Some 0"
  by (simp_all add: Atoi_def is_digit_def dec_val_def digit_val_def)

theorem ValidateNameserverIpAndPort_result_witness:
  "ParseIP ''::0'' = Some [0, 0, 0, 0, 0, 0, 0, 0, 0, 0, 0, 0, 0, 0, 0, 0]
   \<and> ValidateNameserverIpAndPort ''::0''
       = Inr (IP_String [0, 0, 0, 0, 0, 0, 0, 0, 0, 0, 0, 0, 0, 0, 0, 0], ''53'')
   \<and> ParseIP ''1.2.3.4:53'' = None
   \<and> SplitHostPort ''1.2.3.4:53'' = Inr (''1.2.3.4'', ''53'')
   \<and> ParseIP ''1.2.3.4'' \<noteq> None
   \<and> Atoi ''53'' = Some 53
   \<and> ValidateNameserverIpAndPort ''1.2.3.4:53'' = Inr (''1.2.3.4'', ''53'')
   \<and> ParseIP ''1.2.3.4:0'' = None
   \<and> SplitHostPort ''1.2.3.4:0'' = Inr (''1.2.3.4'', ''0'')
   \<and> Atoi ''0'' = Some 0
   \<and> isl (ValidateNameserverIpAndPort ''1.2.3.4:0'')"
  using ValidateNameserverIpAndPort_result[of "''::0''"
          "[0, 0, 0, 0, 0, 0, 0, 0, 0, 0, 0, 0, 0, 0, 0, 0]" "''x''" "''y''"]
        ValidateNameserverIpAndPort_result[of "''1.2.3.4:53''" "[]" "''1.2.3.4''" "''53''"]
        ValidateNameserverIpAndPort_result[of "''1.2.3.4:0''" "[]" "''1.2.3.4''" "''0''"]
  by (simp add: ParseIP_zero ParseIP_hostport ParseIP_1_2_3_4 SplitHostPort_examples
        Atoi_examples)

section \<open>The reverse record map under the handlers\<close>

lemma getHostname_snd [simp]: "snd (getHostname a) \<longleftrightarrow> Hostname a \<noteq> []"
  by (simp add: getHostname_def)

lemma getHostname_fst: "Hostname a \<noteq> [] \<Longrightarrow> fst (getHostname a) = Hostname a"
  by (simp add: getHostname_def)

lemma fold_enter_named:
  "fold (\<lambda>address m. if snd (getHostname address) then m(IP address \<mapsto> True) else m) xs m0 ip
     \<noteq> None
   \<longleftrightarrow> m0 ip \<noteq> None \<or> (\<exists>a \<in> set xs. IP a = ip \<and> Hostname a \<noteq> [])"
  by (induction xs arbitrary: m0) auto

lemma fold_remove_named:
  "fold (\<lambda>address m.
           if m (IP address) \<noteq> None
           then (if snd (getHostname address) then m(IP address := None) else m)
           else m) ys m1 ip \<noteq> None
   \<longleftrightarrow> m1 ip \<noteq> None \<and> \<not> (\<exists>b \<in> set ys. IP b = ip \<and> Hostname b \<noteq> [])"
  by (induction ys arbitrary: m1) auto

lemma oldAddressMap_iff:
  "oldAddressMap old new ip \<noteq> None \<longleftrightarrow> hasNamedAddress old ip \<and> \<not> hasNamedAddress new ip"
  unfolding oldAddressMap_def fold_remove_named fold_enter_named
  by (simp add: hasNamedAddress_def list_ex_iff)


lemma headless_address_snd:
  "snd (headless_address kd svc ports a (c, g)) =
     (if Hostname a \<noteq> [] then g(IP a \<mapsto> fst (GetSkyMsg (fqdn kd svc [Hostname a]) 0)) else g)"
  by (simp add: headless_address_def Let_def getHostname_fst)

lemma fold_headless_address_snd:
  "snd (fold (headless_address kd svc ports) as st) ip =
     (case List.find (\<lambda>a. IP a = ip \<and> Hostname a \<noteq> []) (rev as) of
        None \<Rightarrow> snd st ip
      | Some a \<Rightarrow> Some (fst (GetSkyMsg (fqdn kd svc [Hostname a]) 0)))"
proof (induction as arbitrary: st rule: rev_induct)
  case Nil
  show ?case by simp
next
  case (snoc a as)
  obtain c g where st: "fold (headless_address kd svc ports) as st = (c, g)"
    by (cases "fold (headless_address kd svc ports) as st")
  have IH: "g ip = (case List.find (\<lambda>a. IP a = ip \<and> Hostname a \<noteq> []) (rev as) of
        None \<Rightarrow> snd st ip
      | Some a \<Rightarrow> Some (fst (GetSkyMsg (fqdn kd svc [Hostname a]) 0)))"
    using snoc[of st] by (simp add: st)
  show ?case
    by (simp add: st headless_address_snd IH)
qed

lemma find_append_case:
  "List.find P (xs @ ys) = (case List.find P xs of None \<Rightarrow> List.find P ys | Some x \<Rightarrow> Some x)"
  by (induction xs) auto

lemma fold_headless_subset_snd:
  "snd (fold (headless_subset kd svc) ss st) ip =
     (case List.find (\<lambda>a. IP a = ip \<and> Hostname a \<noteq> []) (rev (concat (map Addresses ss))) of
        None \<Rightarrow> snd st ip
      | Some a \<Rightarrow> Some (fst (GetSkyMsg (fqdn kd svc [Hostname a]) 0)))"
proof (induction ss arbitrary: st rule: rev_induct)
  case Nil
  show ?case by simp
next
  case (snoc s ss)
  show ?case
    using snoc[of st]
    by (simp add: headless_subset_def fold_headless_address_snd find_append_case
             split: option.splits)
qed

lemma find_None_named:
  "List.find (\<lambda>a. IP a = ip \<and> Hostname a \<noteq> []) (rev (allAddresses e)) = None
   \<longleftrightarrow> \<not> hasNamedAddress e ip"
  by (auto simp: find_None_iff hasNamedAddress_def list_ex_iff)

lemma generateRecords_reverse:
  "reverseRecordMap (generateRecordsForHeadlessService kd e svc) ip =
     (case List.find (\<lambda>a. IP a = ip \<and> Hostname a \<noteq> []) (rev (allAddresses e)) of
        None \<Rightarrow> reverseRecordMap kd ip
      | Some a \<Rightarrow> Some (fst (GetSkyMsg (fqdn kd svc [Hostname a]) 0)))"
proof -
  obtain c g where f: "fold (headless_subset kd svc) (Subsets e) (NewTreeCache, Map.empty) = (c, g)"
    by (cases "fold (headless_subset kd svc) (Subsets e) (NewTreeCache, Map.empty)")
  have "snd (fold (headless_subset kd svc) (Subsets e) (NewTreeCache, Map.empty)) ip
        = (case List.find (\<lambda>a. IP a = ip \<and> Hostname a \<noteq> []) (rev (allAddresses e)) of
             None \<Rightarrow> None
           | Some a \<Rightarrow> Some (fst (GetSkyMsg (fqdn kd svc [Hostname a]) 0)))"
    by (simp add: fold_headless_subset_snd allAddresses_def split: option.splits)
  then have g: "g ip = (case List.find (\<lambda>a. IP a = ip \<and> Hostname a \<noteq> []) (rev (allAddresses e)) of
        None \<Rightarrow> None
      | Some a \<Rightarrow> Some (fst (GetSkyMsg (fqdn kd svc [Hostname a]) 0)))"
    by (simp add: f)
  show ?thesis
    by (simp add: generateRecordsForHeadlessService_def f Let_def map_add_def g
             split: option.splits)
qed

lemma generateRecords_named:
  "hasNamedAddress e ip \<Longrightarrow>
   reverseRecordMap (generateRecordsForHeadlessService kd e svc) ip \<noteq> None"
  using find_None_named[of ip e]
  by (auto simp: generateRecords_reverse split: option.splits)

lemma generateRecords_unnamed:
  "\<not> hasNamedAddress e ip \<Longrightarrow>
   reverseRecordMap (generateRecordsForHeadlessService kd e svc) ip = reverseRecordMap kd ip"
  using find_None_named[of ip e]
  by (auto simp: generateRecords_reverse split: option.splits)

lemma generateRecords_stores:
  "servicesStore (generateRecordsForHeadlessService kd e svc) = servicesStore kd"
  "endpointsStore (generateRecordsForHeadlessService kd e svc) = endpointsStore kd"
  by (simp_all add: generateRecordsForHeadlessService_def Let_def split: prod.splits)

lemma handleEndpointAdd_reverse:
  "reverseRecordMap (handleEndpointAdd kd (EndpointsObj e)) ip =
     (case servicesStore kd (MetaNamespaceKeyFunc (e_Namespace e) (e_Name e)) of
        Some (ServiceObj svc) \<Rightarrow>
          if IsServiceIPSet svc \<or> Type svc = ServiceTypeExternalName then reverseRecordMap kd ip
          else reverseRecordMap (generateRecordsForHeadlessService kd e svc) ip
      | _ \<Rightarrow> reverseRecordMap kd ip)"
  by (simp add: handleEndpointAdd_def addDNSUsingEndpoints_def getServiceFromEndpoints_def
           split: option.splits obj.splits)

lemma handleEndpointAdd_keeps:
  "reverseRecordMap kd ip \<noteq> None \<Longrightarrow>
   reverseRecordMap (handleEndpointAdd kd (EndpointsObj e)) ip \<noteq> None"
  by (auto simp: handleEndpointAdd_reverse generateRecords_reverse split: option.splits obj.splits)

lemma handleEndpointAdd_unnamed:
  "\<not> hasNamedAddress e ip \<Longrightarrow>
   reverseRecordMap (handleEndpointAdd kd (EndpointsObj e)) ip = reverseRecordMap kd ip"
  by (auto simp: handleEndpointAdd_reverse generateRecords_unnamed split: option.splits obj.splits)

lemma handleEndpointUpdate_unfold:
  assumes "servicesStore kd (MetaNamespaceKeyFunc (e_Namespace old) (e_Name old))
           = Some (ServiceObj svc)" and "\<not> IsServiceIPSet svc"
  shows "handleEndpointUpdate kd (EndpointsObj old) (EndpointsObj new) =
         handleEndpointAdd
           (kd\<lparr>reverseRecordMap :=
                 (\<lambda>k. if oldAddressMap old new k \<noteq> None then None else reverseRecordMap kd k)\<rparr>)
           (EndpointsObj new)"
  using assms by (simp add: handleEndpointUpdate_def getServiceFromEndpoints_def)


lemma hasNamed_hasAddress: "hasNamedAddress e ip \<Longrightarrow> hasAddress e ip"
  by (auto simp: hasNamedAddress_def hasAddress_def list_ex_iff)

lemma handleEndpointUpdate_is_add:
  "\<exists>m. handleEndpointUpdate kd (EndpointsObj old) (EndpointsObj new)
        = handleEndpointAdd (kd\<lparr>reverseRecordMap := m\<rparr>) (EndpointsObj new)"
proof (cases "\<exists>svc. getServiceFromEndpoints kd old = Inr (Some svc) \<and> \<not> IsServiceIPSet svc")
  case True
  then obtain svc where "getServiceFromEndpoints kd old = Inr (Some svc)" "\<not> IsServiceIPSet svc"
    by blast
  then have "handleEndpointUpdate kd (EndpointsObj old) (EndpointsObj new)
        = handleEndpointAdd (kd\<lparr>reverseRecordMap :=
             (\<lambda>k. if oldAddressMap old new k \<noteq> None then None else reverseRecordMap kd k)\<rparr>)
            (EndpointsObj new)"
    by (simp add: handleEndpointUpdate_def)
  then show ?thesis by blast
next
  case False
  then have "handleEndpointUpdate kd (EndpointsObj old) (EndpointsObj new)
        = handleEndpointAdd (kd\<lparr>reverseRecordMap := reverseRecordMap kd\<rparr>) (EndpointsObj new)"
    by (auto simp: handleEndpointUpdate_def split: sum.splits option.splits)
  then show ?thesis by blast
qed

lemma handleEndpointAdd_named:
  assumes "servicesStore kd (MetaNamespaceKeyFunc (e_Namespace e) (e_Name e)) = Some (ServiceObj svc)"
    and "\<not> IsServiceIPSet svc" and "Type svc \<noteq> ServiceTypeExternalName"
    and "hasNamedAddress e ip"
  shows "reverseRecordMap (handleEndpointAdd kd (EndpointsObj e)) ip \<noteq> None"
  using assms by (simp add: handleEndpointAdd_reverse generateRecords_named)

lemma handleEndpointUpdate_named:
  assumes "servicesStore kd (MetaNamespaceKeyFunc (e_Namespace e) (e_Name e)) = Some (ServiceObj svc)"
    and "\<not> IsServiceIPSet svc" and "Type svc \<noteq> ServiceTypeExternalName"
    and "hasNamedAddress e ip"
  shows "reverseRecordMap (handleEndpointUpdate kd (EndpointsObj old) (EndpointsObj e)) ip \<noteq> None"
proof -
  obtain m where m: "handleEndpointUpdate kd (EndpointsObj old) (EndpointsObj e)
        = handleEndpointAdd (kd\<lparr>reverseRecordMap := m\<rparr>) (EndpointsObj e)"
    using handleEndpointUpdate_is_add by blast
  have "servicesStore (kd\<lparr>reverseRecordMap := m\<rparr>) (MetaNamespaceKeyFunc (e_Namespace e) (e_Name e))
        = Some (ServiceObj svc)" using assms(1) by simp
  from handleEndpointAdd_named[OF this assms(2,3,4)] show ?thesis by (simp add: m)
qed



lemma newService_portal:
  "Type service \<noteq> ServiceTypeExternalName \<Longrightarrow> IsServiceIPSet service \<Longrightarrow>
   newService kd (ServiceObj service) = newPortalService kd service"
  by (simp add: newService_def)

lemma newService_headless:
  "Type svc \<noteq> ServiceTypeExternalName \<Longrightarrow> \<not> IsServiceIPSet svc \<Longrightarrow>
   endpointsStore kd (MetaNamespaceKeyFunc (Namespace svc) (Name svc)) = Some (EndpointsObj e) \<Longrightarrow>
   newService kd (ServiceObj svc) = generateRecordsForHeadlessService kd e svc"
  by (simp add: newService_def newHeadlessService_def)

text \<open>
  Claim C4. The addresses left in \<open>oldAddressMap\<close> are exactly the IPs that carried a
  hostname in the old endpoints object and are either absent from the new object or
  present in it without a hostname (no address of the new object with that IP carries
  one). For an endpoints update whose owning service is headless, the entries of exactly
  those IPs are deleted from the reverse record map; at every other IP an entry that was
  there before the update is still there after it, in particular at the old IPs that are
  still present with a hostname.
\<close>

theorem handleEndpointUpdate_reverse_records:
  "(oldAddressMap old new ip \<noteq> None \<longleftrightarrow>
      hasNamedAddress old ip
      \<and> (\<not> hasAddress new ip \<or> (hasAddress new ip \<and> \<not> hasNamedAddress new ip)))
   \<and> (servicesStore kd (MetaNamespaceKeyFunc (e_Namespace old) (e_Name old)) = Some (ServiceObj svc)
       \<and> \<not> IsServiceIPSet svc \<longrightarrow>
        (hasNamedAddress old ip
         \<and> (\<not> hasAddress new ip \<or> (hasAddress new ip \<and> \<not> hasNamedAddress new ip)) \<longrightarrow>
           reverseRecordMap (handleEndpointUpdate kd (EndpointsObj old) (EndpointsObj new)) ip
           = None)
        \<and> (\<not> (hasNamedAddress old ip
               \<and> (\<not> hasAddress new ip \<or> (hasAddress new ip \<and> \<not> hasNamedAddress new ip)))
            \<and> reverseRecordMap kd ip \<noteq> None \<longrightarrow>
           reverseRecordMap (handleEndpointUpdate kd (EndpointsObj old) (EndpointsObj new)) ip
           \<noteq> None))"
proof -
  have eq: "(\<not> hasAddress new ip \<or> (hasAddress new ip \<and> \<not> hasNamedAddress new ip))
            \<longleftrightarrow> \<not> hasNamedAddress new ip"
    using hasNamed_hasAddress[of new ip] by blast
  have 1: "oldAddressMap old new ip \<noteq> None \<longleftrightarrow>
      hasNamedAddress old ip \<and> \<not> hasNamedAddress new ip"
    by (rule oldAddressMap_iff)
  {
    assume a: "servicesStore kd (MetaNamespaceKeyFunc (e_Namespace old) (e_Name old))
               = Some (ServiceObj svc)" "\<not> IsServiceIPSet svc"
    let ?kd1 = "kd\<lparr>reverseRecordMap :=
                 (\<lambda>k. if oldAddressMap old new k \<noteq> None then None else reverseRecordMap kd k)\<rparr>"
    note u = handleEndpointUpdate_unfold[OF a, of new]
    have del: "hasNamedAddress old ip \<and> \<not> hasNamedAddress new ip \<Longrightarrow>
           reverseRecordMap (handleEndpointUpdate kd (EndpointsObj old) (EndpointsObj new)) ip
           = None"
    proof -
      assume d: "hasNamedAddress old ip \<and> \<not> hasNamedAddress new ip"
      then have "reverseRecordMap (handleEndpointAdd ?kd1 (EndpointsObj new)) ip
                 = reverseRecordMap ?kd1 ip"
        by (simp add: handleEndpointAdd_unnamed)
      also have "\<dots> = None" using d 1 by simp
      finally show ?thesis by (simp add: u)
    qed
    have keep: "\<not> (hasNamedAddress old ip \<and> \<not> hasNamedAddress new ip)
            \<and> reverseRecordMap kd ip \<noteq> None \<Longrightarrow>
           reverseRecordMap (handleEndpointUpdate kd (EndpointsObj old) (EndpointsObj new)) ip
           \<noteq> None"
    proof -
      assume k: "\<not> (hasNamedAddress old ip \<and> \<not> hasNamedAddress new ip)
            \<and> reverseRecordMap kd ip \<noteq> None"
      with 1 have "reverseRecordMap ?kd1 ip \<noteq> None" by simp
      then have "reverseRecordMap (handleEndpointAdd ?kd1 (EndpointsObj new)) ip \<noteq> None"
        by (rule handleEndpointAdd_keeps)
      then show ?thesis by (simp add: u)
    qed
    note del keep
  }
  then show ?thesis unfolding eq using 1 by blast
qed


lemma handleEndpointAdd_stores:
  "servicesStore (handleEndpointAdd kd ob) = servicesStore kd"
  "endpointsStore (handleEndpointAdd kd ob) = endpointsStore kd"
  by (auto simp: handleEndpointAdd_def addDNSUsingEndpoints_def generateRecords_stores
           split: obj.splits sum.splits option.splits)

lemma example_keys:
  "MetaNamespaceKeyFunc (e_Namespace example_e1) (e_Name example_e1) = ''prod/h1''"
  "MetaNamespaceKeyFunc (e_Namespace example_e1_new) (e_Name example_e1_new) = ''prod/h1''"
  "MetaNamespaceKeyFunc (e_Namespace example_e2) (e_Name example_e2) = ''prod/h2''"
  by (simp_all add: MetaNamespaceKeyFunc_def example_e1_def example_e1_new_def example_e2_def)

lemma example_stores:
  "servicesStore example_kd_headless ''prod/h1'' = Some (ServiceObj example_h1)"
  "servicesStore example_kd_headless ''prod/h2'' = Some (ServiceObj example_h2)"
  "endpointsStore example_kd_headless ''prod/h2'' = Some (EndpointsObj example_e2)"
  by (simp_all add: example_kd_headless_def)

lemma example_stores_h:
  "servicesStore example_kd_h ''prod/h1'' = Some (ServiceObj example_h1)"
  "servicesStore example_kd_h ''prod/h2'' = Some (ServiceObj example_h2)"
  by (simp_all add: example_kd_h_def handleEndpointAdd_stores example_stores)

lemma example_headless:
  "\<not> IsServiceIPSet example_h1" "Type example_h1 \<noteq> ServiceTypeExternalName"
  "\<not> IsServiceIPSet example_h2" "Type example_h2 \<noteq> ServiceTypeExternalName"
  by (simp_all add: IsServiceIPSet_def example_h1_def example_h2_def ClusterIPNone_def
        ServiceTypeExternalName_def)

lemma example_addresses:
  "allAddresses example_e1 = [\<lparr>IP = ''10.0.0.7'', Hostname = ''db-0''\<rparr>,
                              \<lparr>IP = ''10.0.0.8'', Hostname = ''db-1''\<rparr>]"
  "allAddresses example_e1_new = [\<lparr>IP = ''10.0.0.7'', Hostname = ''db-0''\<rparr>,
                                  \<lparr>IP = ''10.0.0.8'', Hostname = []\<rparr>]"
  "allAddresses example_e2 = [\<lparr>IP = ''10.0.0.7'', Hostname = []\<rparr>]"
  by (simp_all add: allAddresses_def example_e1_def example_e1_new_def example_e2_def)

lemma example_named:
  "hasNamedAddress example_e1 ''10.0.0.7''" "hasNamedAddress example_e1 ''10.0.0.8''"
  "hasNamedAddress example_e1_new ''10.0.0.7''" "\<not> hasNamedAddress example_e1_new ''10.0.0.8''"
  "hasAddress example_e1_new ''10.0.0.8''" "\<not> hasNamedAddress example_e2 ''10.0.0.7''"
  "hasAddress example_e2 ''10.0.0.7''"
  by (simp_all add: hasNamedAddress_def hasAddress_def example_addresses)

lemma example_reverse_h:
  "reverseRecordMap example_kd_h ''10.0.0.7'' \<noteq> None"
  "reverseRecordMap example_kd_h ''10.0.0.8'' \<noteq> None"
  unfolding example_kd_h_def
  by (rule handleEndpointAdd_named[of _ _ example_h1];
      simp add: example_keys example_stores example_headless example_named)+

theorem handleEndpointUpdate_reverse_records_witness:
  "servicesStore example_kd_h (MetaNamespaceKeyFunc (e_Namespace example_e1) (e_Name example_e1))
     = Some (ServiceObj example_h1)
   \<and> \<not> IsServiceIPSet example_h1
   \<and> hasNamedAddress example_e1 ''10.0.0.8''
   \<and> hasAddress example_e1_new ''10.0.0.8'' \<and> \<not> hasNamedAddress example_e1_new ''10.0.0.8''
   \<and> reverseRecordMap example_kd_h ''10.0.0.8'' \<noteq> None
   \<and> oldAddressMap example_e1 example_e1_new ''10.0.0.8'' \<noteq> None
   \<and> reverseRecordMap
       (handleEndpointUpdate example_kd_h (EndpointsObj example_e1) (EndpointsObj example_e1_new))
       ''10.0.0.8'' = None
   \<and> hasNamedAddress example_e1 ''10.0.0.7'' \<and> hasNamedAddress example_e1_new ''10.0.0.7''
   \<and> reverseRecordMap example_kd_h ''10.0.0.7'' \<noteq> None
   \<and> oldAddressMap example_e1 example_e1_new ''10.0.0.7'' = None
   \<and> reverseRecordMap
       (handleEndpointUpdate example_kd_h (EndpointsObj example_e1) (EndpointsObj example_e1_new))
       ''10.0.0.7'' \<noteq> None"
  using handleEndpointUpdate_reverse_records[of example_e1 example_e1_new "''10.0.0.8''"
          example_kd_h example_h1]
        handleEndpointUpdate_reverse_records[of example_e1 example_e1_new "''10.0.0.7''"
          example_kd_h example_h1]
        example_reverse_h
  by (simp add: example_keys example_stores_h example_headless example_named
        hasNamed_hasAddress)

section \<open>The reverse record map along a run of the informers\<close>

text \<open>The handlers leave the stores of the informers alone.\<close>

lemma newPortalService_stores:
  "servicesStore (newPortalService kd s) = servicesStore kd"
  "endpointsStore (newPortalService kd s) = endpointsStore kd"
  by (simp_all add: newPortalService_def Let_def)

lemma newExternalNameService_facts:
  "servicesStore (newExternalNameService kd s) = servicesStore kd"
  "endpointsStore (newExternalNameService kd s) = endpointsStore kd"
  "reverseRecordMap (newExternalNameService kd s) = reverseRecordMap kd"
  by (simp_all add: newExternalNameService_def Let_def)

lemma newHeadlessService_stores:
  "servicesStore (newHeadlessService kd s) = servicesStore kd"
  "endpointsStore (newHeadlessService kd s) = endpointsStore kd"
  by (simp_all add: newHeadlessService_def generateRecords_stores split: option.splits obj.splits)

lemma newService_stores:
  "servicesStore (newService kd ob) = servicesStore kd"
  "endpointsStore (newService kd ob) = endpointsStore kd"
  by (simp_all add: newService_def newPortalService_stores newExternalNameService_facts
        newHeadlessService_stores split: obj.splits)


lemma removeService_stores:
  "servicesStore (removeService kd ob) = servicesStore kd"
  "endpointsStore (removeService kd ob) = endpointsStore kd"
  by (simp_all add: removeService_def Let_def split: obj.splits)


lemma updateService_stores:
  "servicesStore (updateService kd oldObj newObj) = servicesStore kd"
  "endpointsStore (updateService kd oldObj newObj) = endpointsStore kd"
  by (simp_all add: updateService_def Let_def newService_stores removeService_stores
        split: obj.splits)

lemma handleEndpointUpdate_stores:
  "servicesStore (handleEndpointUpdate kd oldObj newObj) = servicesStore kd"
  "endpointsStore (handleEndpointUpdate kd oldObj newObj) = endpointsStore kd"
  by (simp_all add: handleEndpointUpdate_def Let_def handleEndpointAdd_stores
        split: obj.splits sum.splits option.splits)


lemma handleEndpointDelete_stores:
  "servicesStore (handleEndpointDelete kd ob) = servicesStore kd"
  "endpointsStore (handleEndpointDelete kd ob) = endpointsStore kd"
  by (simp_all add: handleEndpointDelete_def split: obj.splits sum.splits option.splits)


lemma handler_stores:
  "servicesStore (handler ev kd) = servicesStore kd"
  "endpointsStore (handler ev kd) = endpointsStore kd"
  by (simp_all add: handler_def newService_stores updateService_stores removeService_stores
        handleEndpointAdd_stores handleEndpointUpdate_stores handleEndpointDelete_stores
        split: event.splits)

lemma required_at_cong:
  "servicesStore kd' = servicesStore kd \<Longrightarrow> endpointsStore kd' = endpointsStore kd \<Longrightarrow>
   required_at kd' k ip = required_at kd k ip"
  by (simp add: required_at_def split: option.splits obj.splits)

lemma required_at_handler [simp]: "required_at (handler ev kd) k ip = required_at kd k ip"
  by (rule required_at_cong) (simp_all add: handler_stores)




lemma storeUpdate_reverse [simp]: "reverseRecordMap (storeUpdate ev kd) = reverseRecordMap kd"
  by (simp add: storeUpdate_def split: event.splits)


































section \<open>The SRV records of a cluster-IP service\<close>

lemma getSubCache_New: "getSubCache p NewTreeCache = (if p = [] then Some NewTreeCache else None)"
  by (cases p) (simp_all add: NewTreeCache_def)

lemma GetEntry_New [simp]: "GetEntry k p NewTreeCache = None"
  by (simp add: GetEntry_def getSubCache_New) (simp add: NewTreeCache_def)

lemma GetEntry_Cons:
  "GetEntry k (x # xs) c =
     (case map_of (ChildNodes c) x of None \<Rightarrow> None | Some n \<Rightarrow> GetEntry k xs n)"
  by (simp add: GetEntry_def split: option.splits)

lemma GetEntry_Nil: "GetEntry k [] c = map_option fst (map_of (Entries c) k)"
  by (simp add: GetEntry_def)

lemma GetEntry_SetEntry:
  "GetEntry k p (SetEntry k' v f p' c) =
     (if k = k' \<and> p = p' then Some v else GetEntry k p c)"
  unfolding SetEntry_def
proof (induction p' arbitrary: p c)
  case Nil
  show ?case
    by (cases p) (simp_all add: GetEntry_Nil GetEntry_Cons update_conv')
next
  case (Cons y ys)
  show ?case
  proof (cases p)
    case Nil
    then show ?thesis by (simp add: GetEntry_Nil)
  next
    case (Cons x xs)
    show ?thesis
    proof (cases "x = y")
      case False
      then show ?thesis using Cons by (simp add: GetEntry_Cons update_conv')
    next
      case True
      show ?thesis
        using Cons True Cons.IH[of xs]
        by (simp add: GetEntry_Cons update_conv' split: option.splits)
    qed
  qed
qed

lemma GetEntry_SetSubCache:
  "GetEntry k (p @ key # q) (SetSubCache key sub p c) = GetEntry k q sub"
  unfolding SetSubCache_def
  by (induction p arbitrary: c) (simp_all add: GetEntry_Cons update_conv')


lemma srvChildPath_neq_Nil [simp]: "srvChildPath p \<noteq> []" "[] \<noteq> srvChildPath p"
  by (simp_all add: srvChildPath_def)

lemma newPortalService_port_GetEntry:
  "GetEntry k path (newPortalService_port kd service label port c) =
     (if k = label \<and> srvPort port \<and> srvChildPath port = path
      then Some (generateSRVRecordValue kd service (sp_Port port) [])
      else GetEntry k path c)"
  by (auto simp: newPortalService_port_def Let_def GetEntry_SetEntry srvPort_def srvChildPath_def)

lemma fold_ports_GetEntry:
  "GetEntry k path (fold (newPortalService_port kd service label) ports c) =
     (case List.find (\<lambda>p. srvPort p \<and> srvChildPath p = path) (rev ports) of
        None \<Rightarrow> GetEntry k path c
      | Some p \<Rightarrow> if k = label then Some (generateSRVRecordValue kd service (sp_Port p) [])
                  else GetEntry k path c)"
proof (induction ports rule: rev_induct)
  case Nil
  show ?case by simp
next
  case (snoc p ports)
  show ?case
    by (simp add: newPortalService_port_GetEntry snoc split: option.splits)
qed

lemma newPortalService_ip_GetEntry:
  "GetEntry k path (newPortalService_ip kd service ip c) =
     (if k = snd (GetSkyMsg ip 0)
      then (case List.find (\<lambda>p. srvPort p \<and> srvChildPath p = path) (rev (Ports service)) of
              None \<Rightarrow> if path = [] then Some (fst (GetSkyMsg ip 0)) else GetEntry k path c
            | Some p \<Rightarrow> Some (generateSRVRecordValue kd service (sp_Port p) []))
      else GetEntry k path c)"
  by (simp add: newPortalService_ip_def fold_ports_GetEntry GetEntry_SetEntry
        split: prod.splits option.splits)

lemma fold_ips_GetEntry:
  "GetEntry k path (fold (newPortalService_ip kd service) ips c) =
     (case List.find (\<lambda>ip. snd (GetSkyMsg ip 0) = k) (rev ips) of
        None \<Rightarrow> GetEntry k path c
      | Some ip \<Rightarrow>
          (case List.find (\<lambda>p. srvPort p \<and> srvChildPath p = path) (rev (Ports service)) of
             None \<Rightarrow> if path = [] then Some (fst (GetSkyMsg ip 0)) else GetEntry k path c
           | Some p \<Rightarrow> Some (generateSRVRecordValue kd service (sp_Port p) [])))"
proof (induction ips arbitrary: k rule: rev_induct)
  case Nil
  show ?case by simp
next
  case (snoc ip ips)
  show ?case
    by (simp add: newPortalService_ip_GetEntry snoc split: option.splits)
qed

lemma subCache_GetEntry:
  "GetEntry k path (newPortalService_subCache kd service) =
     (case List.find (\<lambda>ip. snd (GetSkyMsg ip 0) = k) (rev (GetClusterIPs service)) of
        None \<Rightarrow> None
      | Some ip \<Rightarrow>
          (case List.find (\<lambda>p. srvPort p \<and> srvChildPath p = path) (rev (Ports service)) of
             None \<Rightarrow> if path = [] then Some (fst (GetSkyMsg ip 0)) else None
           | Some p \<Rightarrow> Some (generateSRVRecordValue kd service (sp_Port p) [])))"
  by (simp add: newPortalService_subCache_def fold_ips_GetEntry split: option.splits)

lemma newPortalService_cache:
  "GetEntry k (serviceNode kd service @ path) (cache (newPortalService kd service))
     = GetEntry k path (newPortalService_subCache kd service)"
  using GetEntry_SetSubCache[of k "domainPath kd @ [serviceSubdomain, Namespace service]"
          "Name service" path "newPortalService_subCache kd service" "cache kd"]
  by (simp add: newPortalService_def Let_def serviceNode_def)

lemma generateSRVRecordValue_Nil:
  "generateSRVRecordValue kd svc portNumber [] =
     \<lparr>Host = Join [Name svc, Namespace svc, serviceSubdomain, domain kd] ''.'',
      Port = portNumber, Priority = 10, Weight = 10, Ttl = 30\<rparr>"
  by (simp add: generateSRVRecordValue_def Let_def GetSkyMsg_fst)


lemma srvChildPath_srvPort:
  "srvPort p \<Longrightarrow> \<not> srvPort q \<Longrightarrow> srvChildPath p \<noteq> srvChildPath q"
  by (auto simp: srvPort_def srvChildPath_def ToLower_def)

lemma find_Some_set: "List.find P xs = Some x \<Longrightarrow> P x \<and> x \<in> set xs"
  by (induction xs) (auto split: if_splits)

lemma find_last_srvPort:
  "p \<in> set ports \<Longrightarrow> srvPort p \<Longrightarrow>
   \<exists>q \<in> set ports. srvPort q \<and> srvChildPath q = srvChildPath p \<and>
     List.find (\<lambda>x. srvPort x \<and> srvChildPath x = srvChildPath p) (rev ports) = Some q"
proof -
  assume a: "p \<in> set ports" "srvPort p"
  then have "List.find (\<lambda>x. srvPort x \<and> srvChildPath x = srvChildPath p) (rev ports) \<noteq> None"
    by (auto simp: find_None_iff)
  then obtain q where q: "List.find (\<lambda>x. srvPort x \<and> srvChildPath x = srvChildPath p) (rev ports) = Some q"
    by auto
  then have "q \<in> set ports \<and> srvPort q \<and> srvChildPath q = srvChildPath p"
    by (auto dest: find_Some_set)
  with q show ?thesis by blast
qed

lemma find_last_ip:
  "ip \<in> set ips \<Longrightarrow>
   \<exists>ip' \<in> set ips. snd (GetSkyMsg ip' 0) = snd (GetSkyMsg ip 0) \<and>
     List.find (\<lambda>x. snd (GetSkyMsg x 0) = snd (GetSkyMsg ip 0)) (rev ips) = Some ip'"
proof -
  assume a: "ip \<in> set ips"
  then have "List.find (\<lambda>x. snd (GetSkyMsg x 0) = snd (GetSkyMsg ip 0)) (rev ips) \<noteq> None"
    by (auto simp: find_None_iff)
  then obtain q where q: "List.find (\<lambda>x. snd (GetSkyMsg x 0) = snd (GetSkyMsg ip 0)) (rev ips) = Some q"
    by auto
  then have "q \<in> set ips \<and> snd (GetSkyMsg q 0) = snd (GetSkyMsg ip 0)"
    by (auto dest: find_Some_set)
  with q show ?thesis by blast
qed

lemma portal_srv_entry:
  assumes "ip \<in> set (GetClusterIPs service)" and "port \<in> set (Ports service)" and "srvPort port"
  shows "\<exists>p \<in> set (Ports service). srvPort p \<and> srvChildPath p = srvChildPath port
           \<and> GetEntry (snd (GetSkyMsg ip 0)) (serviceNode kd service @ srvChildPath port)
                (cache (newPortalService kd service))
              = Some \<lparr>Host = Join [Name service, Namespace service, serviceSubdomain, domain kd] ''.'',
                      Port = sp_Port p, Priority = 10, Weight = 10, Ttl = 30\<rparr>"
proof -
  from find_last_ip[OF assms(1)] obtain ip' where
    ip': "List.find (\<lambda>x. snd (GetSkyMsg x 0) = snd (GetSkyMsg ip 0)) (rev (GetClusterIPs service))
          = Some ip'" by blast
  from find_last_srvPort[OF assms(2,3)] obtain q where
    q: "q \<in> set (Ports service)" "srvPort q" "srvChildPath q = srvChildPath port"
       "List.find (\<lambda>x. srvPort x \<and> srvChildPath x = srvChildPath port) (rev (Ports service)) = Some q"
    by blast
  have "GetEntry (snd (GetSkyMsg ip 0)) (serviceNode kd service @ srvChildPath port)
                (cache (newPortalService kd service))
        = Some (generateSRVRecordValue kd service (sp_Port q) [])"
    by (simp add: newPortalService_cache subCache_GetEntry ip' q(4))
  with q(1,2,3) show ?thesis by (auto simp: generateSRVRecordValue_Nil)
qed

lemma portal_a_entry:
  assumes "ip \<in> set (GetClusterIPs service)"
  shows "\<exists>ip' \<in> set (GetClusterIPs service). snd (GetSkyMsg ip' 0) = snd (GetSkyMsg ip 0)
           \<and> GetEntry (snd (GetSkyMsg ip 0)) (serviceNode kd service)
                (cache (newPortalService kd service)) = Some (fst (GetSkyMsg ip' 0))"
proof -
  from find_last_ip[OF assms(1)] obtain ip' where
    ip': "ip' \<in> set (GetClusterIPs service)" "snd (GetSkyMsg ip' 0) = snd (GetSkyMsg ip 0)"
      "List.find (\<lambda>x. snd (GetSkyMsg x 0) = snd (GetSkyMsg ip 0)) (rev (GetClusterIPs service))
          = Some ip'" by blast
  have "List.find (\<lambda>p. srvPort p \<and> srvChildPath p = []) (rev (Ports service)) = None"
    by (simp add: find_None_iff)
  then have "GetEntry (snd (GetSkyMsg ip 0)) (serviceNode kd service @ [])
                (cache (newPortalService kd service)) = Some (fst (GetSkyMsg ip' 0))"
    unfolding newPortalService_cache subCache_GetEntry by (simp add: ip'(3))
  with ip'(1,2) show ?thesis by auto
qed

lemma portal_no_entry:
  assumes "\<not> srvPort port"
  shows "GetEntry k (serviceNode kd service @ srvChildPath port)
           (cache (newPortalService kd service)) = None"
proof -
  have "List.find (\<lambda>p. srvPort p \<and> srvChildPath p = srvChildPath port) (rev (Ports service)) = None"
    using srvChildPath_srvPort[OF _ assms] by (auto simp: find_None_iff)
  then show ?thesis
    by (simp add: newPortalService_cache subCache_GetEntry split: option.splits)
qed

lemma portal_entry_only:
  assumes "path \<noteq> []"
    and "GetEntry k (serviceNode kd service @ path) (cache (newPortalService kd service)) \<noteq> None"
  shows "(\<exists>p \<in> set (Ports service). srvPort p \<and> path = srvChildPath p)
         \<and> (\<exists>ip \<in> set (GetClusterIPs service). k = snd (GetSkyMsg ip 0))"
  using assms
  by (auto simp: newPortalService_cache subCache_GetEntry
        split: option.splits dest!: find_Some_set)

lemma example_kd_dot_facts:
  "domainPath example_kd_dot = [''local'', ''cluster'']" "domain example_kd_dot = ''cluster.local.''"
  by (simp_all add: example_kd_dot_def NewKubeDNS_def TrimRight_def Split.simps ReverseArray_rev)

lemma example_web_facts:
  "Type example_web \<noteq> ServiceTypeExternalName" "IsServiceIPSet example_web"
  "GetClusterIPs example_web = [''10.0.0.5'']" "Ports example_web = [example_port]"
  "Name example_web = ''web''" "Namespace example_web = ''prod''"
  by (simp_all add: example_web_def ServiceTypeExternalName_def IsServiceIPSet_def
        ClusterIPNone_def GetClusterIPs_def example_port_def)

lemma ToLower_TCP: "ToLower ''TCP'' = ''tcp''"
  by code_simp

lemma example_port_facts:
  "srvPort example_port" "srvChildPath example_port = [''_tcp'', ''_http'']"
  "sp_Port example_port = 80"
  "\<not> srvPort example_port_unnamed" "srvChildPath example_port_unnamed = [''_tcp'', ''_'']"
  by (simp_all add: srvPort_def srvChildPath_def example_port_def example_port_unnamed_def
        ToLower_TCP)

lemma example_serviceNode:
  "serviceNode example_kd example_web = [''local'', ''cluster'', ''svc'', ''prod'', ''web'']"
  "serviceNode example_kd_dot example_web = [''local'', ''cluster'', ''svc'', ''prod'', ''web'']"
  by (simp_all add: serviceNode_def example_web_facts example_kd_dot_facts serviceSubdomain_def)

lemma example_kd_domain: "domain example_kd = ''cluster.local''"
  by (simp add: example_kd_def NewKubeDNS_def)

text \<open>
  Claim C5, as stated, fails. \<open>generateSRVRecordValue\<close> joins the name of the service, its
  namespace, \<open>svc\<close> and the domain of the engine as \<open>NewKubeDNS\<close> received it, and adds
  no dot. With the domain \<open>cluster.local\<close> of the scenarios of the specification, the
  SRV record of the port \<open>http\<close> of the cluster-IP service \<open>web\<close> in the namespace \<open>prod\<close>
  has the host \<open>web.prod.svc.cluster.local\<close>, which has no trailing dot.
\<close>

theorem newPortalService_srv_host_counterexample:
  "domain example_kd = ''cluster.local''
   \<and> IsServiceIPSet example_web \<and> Type example_web \<noteq> ServiceTypeExternalName
   \<and> GetClusterIPs example_web = [''10.0.0.5'']
   \<and> Ports example_web = [\<lparr>sp_Name = ''http'', sp_Protocol = ''TCP'', sp_Port = 80\<rparr>]
   \<and> GetEntry (snd (GetSkyMsg ''10.0.0.5'' 0))
        [''local'', ''cluster'', ''svc'', ''prod'', ''web'', ''_tcp'', ''_http'']
        (cache (newService example_kd (ServiceObj example_web)))
      = Some \<lparr>Host = ''web.prod.svc.cluster.local'', Port = 80, Priority = 10, Weight = 10,
              Ttl = 30\<rparr>"
proof -
  have "GetEntry (snd (GetSkyMsg ''10.0.0.5'' 0))
          (serviceNode example_kd example_web @ srvChildPath example_port)
          (cache (newPortalService example_kd example_web))
        = Some \<lparr>Host = Join [Name example_web, Namespace example_web, serviceSubdomain,
                              domain example_kd] ''.'',
                Port = 80, Priority = 10, Weight = 10, Ttl = 30\<rparr>"
    using portal_srv_entry[of "''10.0.0.5''" example_web example_port example_kd]
    by (simp add: example_web_facts example_port_facts)
  then have "GetEntry (snd (GetSkyMsg ''10.0.0.5'' 0))
        [''local'', ''cluster'', ''svc'', ''prod'', ''web'', ''_tcp'', ''_http'']
        (cache (newService example_kd (ServiceObj example_web)))
      = Some \<lparr>Host = ''web.prod.svc.cluster.local'', Port = 80, Priority = 10, Weight = 10,
              Ttl = 30\<rparr>"
    by (simp add: example_serviceNode example_port_facts newService_portal example_web_facts
          example_kd_domain serviceSubdomain_def)
  then show ?thesis
    using example_web_facts(1-4) example_kd_domain by (simp add: example_port_def)
qed

text \<open>
  Claim C5, amended. For a cluster-IP service that is not of type ExternalName, after
  \<open>newService\<close>: for each cluster IP and each port that has both a name and a protocol,
  the cache holds an SRV record under the child path
  \<^verbatim>\<open>["_"+lower(protocol), "_"+portName]\<close> beneath the node of the service, under the leaf
  key derived from the hash of the A record of the IP, where the A record itself is
  stored at the node of the service; the host of the SRV record is the name, the
  namespace, \<open>svc\<close> and the domain of the engine joined with dots, the domain taken as it
  is configured (the host ends with a dot only if the domain does), priority and weight
  are 10 and the TTL is 30; its port is the port number of a port of the service with
  this child path that has a name and a protocol (the port itself when no other port
  shares its child path). Under the child path of a port that lacks a name or a
  protocol nothing is stored, and every entry below the node of the service is stored
  under the child path of a port with name and protocol and under the key of a cluster
  IP.
\<close>

theorem newPortalService_srv_records:
  "Type service \<noteq> ServiceTypeExternalName \<and> IsServiceIPSet service \<longrightarrow>
     (ip \<in> set (GetClusterIPs service) \<and> port \<in> set (Ports service) \<and> srvPort port \<longrightarrow>
        (\<exists>p \<in> set (Ports service). srvPort p \<and> srvChildPath p = srvChildPath port
           \<and> GetEntry (snd (GetSkyMsg ip 0)) (serviceNode kd service @ srvChildPath port)
                (cache (newService kd (ServiceObj service)))
              = Some \<lparr>Host = Join [Name service, Namespace service, serviceSubdomain, domain kd] ''.'',
                      Port = sp_Port p, Priority = 10, Weight = 10, Ttl = 30\<rparr>)
        \<and> (\<exists>ip' \<in> set (GetClusterIPs service). snd (GetSkyMsg ip' 0) = snd (GetSkyMsg ip 0)
           \<and> GetEntry (snd (GetSkyMsg ip 0)) (serviceNode kd service)
                (cache (newService kd (ServiceObj service))) = Some (fst (GetSkyMsg ip' 0))))
     \<and> (\<not> srvPort port \<longrightarrow>
          GetEntry k (serviceNode kd service @ srvChildPath port)
            (cache (newService kd (ServiceObj service))) = None)
     \<and> (path \<noteq> []
          \<and> GetEntry k (serviceNode kd service @ path) (cache (newService kd (ServiceObj service)))
              \<noteq> None \<longrightarrow>
          (\<exists>p \<in> set (Ports service). srvPort p \<and> path = srvChildPath p)
          \<and> (\<exists>ip' \<in> set (GetClusterIPs service). k = snd (GetSkyMsg ip' 0)))"
proof (intro impI)
  assume "Type service \<noteq> ServiceTypeExternalName \<and> IsServiceIPSet service"
  then have n: "newService kd (ServiceObj service) = newPortalService kd service"
    by (simp add: newService_portal)
  show "(ip \<in> set (GetClusterIPs service) \<and> port \<in> set (Ports service) \<and> srvPort port \<longrightarrow>
        (\<exists>p \<in> set (Ports service). srvPort p \<and> srvChildPath p = srvChildPath port
           \<and> GetEntry (snd (GetSkyMsg ip 0)) (serviceNode kd service @ srvChildPath port)
                (cache (newService kd (ServiceObj service)))
              = Some \<lparr>Host = Join [Name service, Namespace service, serviceSubdomain, domain kd] ''.'',
                      Port = sp_Port p, Priority = 10, Weight = 10, Ttl = 30\<rparr>)
        \<and> (\<exists>ip' \<in> set (GetClusterIPs service). snd (GetSkyMsg ip' 0) = snd (GetSkyMsg ip 0)
           \<and> GetEntry (snd (GetSkyMsg ip 0)) (serviceNode kd service)
                (cache (newService kd (ServiceObj service))) = Some (fst (GetSkyMsg ip' 0))))
     \<and> (\<not> srvPort port \<longrightarrow>
          GetEntry k (serviceNode kd service @ srvChildPath port)
            (cache (newService kd (ServiceObj service))) = None)
     \<and> (path \<noteq> []
          \<and> GetEntry k (serviceNode kd service @ path) (cache (newService kd (ServiceObj service)))
              \<noteq> None \<longrightarrow>
          (\<exists>p \<in> set (Ports service). srvPort p \<and> path = srvChildPath p)
          \<and> (\<exists>ip' \<in> set (GetClusterIPs service). k = snd (GetSkyMsg ip' 0)))"
    unfolding n
    using portal_srv_entry[of ip service port kd] portal_a_entry[of ip service kd]
      portal_no_entry[of port k kd service] portal_entry_only[of path k kd service]
    by blast
qed

theorem newPortalService_srv_records_witness:
  "Type example_web \<noteq> ServiceTypeExternalName \<and> IsServiceIPSet example_web
   \<and> ''10.0.0.5'' \<in> set (GetClusterIPs example_web)
   \<and> example_port \<in> set (Ports example_web) \<and> srvPort example_port
   \<and> domain example_kd_dot = ''cluster.local.''
   \<and> GetEntry (snd (GetSkyMsg ''10.0.0.5'' 0))
        [''local'', ''cluster'', ''svc'', ''prod'', ''web'', ''_tcp'', ''_http'']
        (cache (newService example_kd_dot (ServiceObj example_web)))
      = Some \<lparr>Host = ''web.prod.svc.cluster.local.'', Port = 80, Priority = 10, Weight = 10,
              Ttl = 30\<rparr>
   \<and> GetEntry (snd (GetSkyMsg ''10.0.0.5'' 0))
        [''local'', ''cluster'', ''svc'', ''prod'', ''web'']
        (cache (newService example_kd_dot (ServiceObj example_web)))
      = Some (fst (GetSkyMsg ''10.0.0.5'' 0))
   \<and> \<not> srvPort example_port_unnamed
   \<and> GetEntry (snd (GetSkyMsg ''10.0.0.5'' 0))
        [''local'', ''cluster'', ''svc'', ''prod'', ''web'', ''_tcp'', ''_'']
        (cache (newService example_kd_dot (ServiceObj example_web)))
      = None"
  using newPortalService_srv_records[of example_web "''10.0.0.5''" example_port example_kd_dot
          "snd (GetSkyMsg ''10.0.0.5'' 0)" "[''_tcp'', ''_http'']"]
        newPortalService_srv_records[of example_web "''10.0.0.5''" example_port_unnamed
          example_kd_dot "snd (GetSkyMsg ''10.0.0.5'' 0)" "[''_tcp'', ''_http'']"]
  by (simp add: example_web_facts example_port_facts example_serviceNode example_kd_dot_facts
        serviceSubdomain_def)

end
